theory Spec2Isabelle
  imports Main "HOL-Library.Word"
begin

section \<open>KubeOne: cluster defaulting, CA handling and MachineDeployment generation\<close>

text \<open>
  A shallow embedding of three Go sources of KubeOne:
  \<^item> the defaulting functions of package \<open>v1beta1\<close> (\<open>SetDefaults_KubeOneCluster\<close> and
    the functions it calls),
  \<^item> \<open>pkg/certificate/certificate.go\<close> (\<open>CAKeyPair\<close>, \<open>NewSignedTLSCert\<close>),
  \<^item> package \<open>machinecontroller\<close> (\<open>createMachineDeployment\<close>, \<open>machineSpec\<close>).

  Go structs are records, pointers to structs are \<open>option\<close> values (\<open>None\<close> is
  \<open>nil\<close>), a slice that the code compares with \<open>nil\<close> is a \<open>list option\<close>, Go
  maps are partial functions, and a function that mutates \<open>*KubeOneCluster\<close> in place
  takes the cluster and returns the updated one. An \<open>int\<close> field of the cluster is an
  \<open>int\<close> here: the defaulting code compares such a field with 0 and assigns constants
  and slice indices to it, so no arithmetic can leave the 64-bit range. The one
  conversion between integer widths, \<open>int32(*workerset.Replicas)\<close>, is on words.
  A field name that several structs share is written with the record's name in front.
\<close>

subsection \<open>The API types read and written by the defaulting code\<close>

text \<open>
  The struct declarations live in files of the package that are not part of the sources
  at hand; the records below carry the fields that the code reads or writes, under the
  names the code uses.
\<close>

record Taint =
  Key :: string
  Value :: string
  Effect :: string

text \<open>
  A block of a PEM file, as \<open>encoding/pem\<close> decodes it; package \<open>certificate\<close>
  reads such files through \<open>k8s.io/client-go\<close>.
\<close>

record pem_Block =
  Type :: string
  Headers :: "(string \<times> string) list"
  Bytes :: string

text \<open>
  The worker-pool types of the API, read by package \<open>machinecontroller\<close>.
  \<open>CloudProviderSpec\<close> of a \<open>ProviderSpec\<close> is a \<open>json.RawMessage\<close>: \<open>nil\<close> or
  the bytes of a JSON document. \<open>Replicas\<close> is a \<open>*int\<close>, a 64-bit integer when set.
\<close>

record NetworkConfig =
  CIDR :: string
  Gateway :: string

record ProviderSpec =
  CloudProviderSpec :: "string option"
  Annotations :: "string \<rightharpoonup> string"
  MachineAnnotations :: "string \<rightharpoonup> string"
  Labels :: "string \<rightharpoonup> string"
  Taints :: "Taint list"
  Network :: "NetworkConfig option"

record DynamicWorkerConfig =
  Name :: string
  Replicas :: "64 word option"
  Config :: ProviderSpec

text \<open>
  The MachineDeployment object that \<open>createMachineDeployment\<close> builds, of the
  machine-controller API and the Kubernetes meta API: the fields that the code sets.
  A pointer field is an \<open>option\<close>; \<open>intstr.FromInt\<close> is a constructor of
  \<open>IntOrString\<close>.
\<close>

datatype IntOrString = FromInt int | FromString string

record ObjectMeta =
  Annotations :: "string \<rightharpoonup> string"
  Labels :: "string \<rightharpoonup> string"
  Namespace :: string
  Name :: string

record LabelSelector =
  MatchLabels :: "string \<rightharpoonup> string"

record MachineRollingUpdateDeployment =
  MaxSurge :: "IntOrString option"
  MaxUnavailable :: "IntOrString option"

record MachineDeploymentStrategy =
  Type :: string
  RollingUpdate :: "MachineRollingUpdateDeployment option"

record MachineVersionInfo =
  Kubelet :: string

record RawExtension =
  Raw :: string

record clusterv1alpha1_ProviderSpec =
  Value :: "RawExtension option"

record MachineSpec =
  ObjectMeta :: ObjectMeta
  Versions :: MachineVersionInfo
  ProviderSpec :: clusterv1alpha1_ProviderSpec
  Taints :: "Taint list"

record MachineTemplateSpec =
  ObjectMeta :: ObjectMeta
  Spec :: MachineSpec

record MachineDeploymentSpec =
  Paused :: bool
  Replicas :: "32 word option"
  Selector :: LabelSelector
  Strategy :: "MachineDeploymentStrategy option"
  MinReadySeconds :: "32 word option"
  Template :: MachineTemplateSpec

record MachineDeployment =
  ObjectMeta :: ObjectMeta
  Spec :: MachineDeploymentSpec

record HostConfig =
  ID :: int
  PublicAddress :: string
  PrivateAddress :: string
  SSHPort :: int
  SSHUsername :: string
  SSHPrivateKeyFile :: string
  SSHAgentSocket :: string
  BastionPort :: int
  BastionUser :: string
  IsLeader :: bool
  Taints :: "Taint list option"

record ControlPlaneConfig =
  Hosts :: "HostConfig list"

record StaticWorkersConfig =
  Hosts :: "HostConfig list"

record APIEndpoint =
  Host :: string
  Port :: int

record VersionConfig =
  Kubernetes :: string

datatype ContainerRuntimeDocker = ContainerRuntimeDocker

datatype ContainerRuntimeContainerd = ContainerRuntimeContainerd

record ContainerRuntimeConfig =
  Docker :: "ContainerRuntimeDocker option"
  Containerd :: "ContainerRuntimeContainerd option"

record CanalSpec =
  MTU :: int

record CiliumSpec =
  KubeProxyReplacement :: string

record CNI =
  Canal :: "CanalSpec option"
  Cilium :: "CiliumSpec option"

record ClusterNetworkConfig =
  PodSubnet :: string
  ServiceSubnet :: string
  ServiceDomainName :: string
  NodePortRange :: string
  CNI :: "CNI option"

text \<open>Each provider field is a pointer to a provider struct; only \<open>nil\<close> or not is read.\<close>

record CloudProviderSpec =
  AWS :: "unit option"
  GCE :: "unit option"
  Hetzner :: "unit option"
  Openstack :: "unit option"

record ProxyConfig =
  HTTP :: string
  HTTPS :: string
  NoProxy :: string

record MachineControllerConfig =
  Deploy :: bool

record SystemPackages =
  ConfigureRepositories :: bool

record RegistryConfiguration =
  OverwriteRegistry :: string

record ImageAsset =
  ImageRepository :: string

record AssetConfiguration =
  Kubernetes :: ImageAsset
  CoreDNS :: ImageAsset
  Etcd :: ImageAsset
  MetricsServer :: ImageAsset

record MetricsServer =
  Enable :: bool

record StaticAuditLogConfig =
  LogPath :: string
  LogMaxAge :: int
  LogMaxBackup :: int
  LogMaxSize :: int

record StaticAuditLog =
  Enable :: bool
  Config :: StaticAuditLogConfig

record OpenIDConnectConfig =
  ClientID :: string
  UsernameClaim :: string
  UsernamePrefix :: string
  GroupsClaim :: string
  GroupsPrefix :: string
  SigningAlgs :: string

record OpenIDConnect =
  Enable :: bool
  Config :: OpenIDConnectConfig

record Features =
  MetricsServer :: "MetricsServer option"
  StaticAuditLog :: "StaticAuditLog option"
  OpenIDConnect :: "OpenIDConnect option"

record Addons =
  Enable :: bool
  Path :: string

record KubeOneCluster =
  Name :: string
  ControlPlane :: ControlPlaneConfig
  StaticWorkers :: StaticWorkersConfig
  DynamicWorkers :: "DynamicWorkerConfig list"
  APIEndpoint :: APIEndpoint
  CloudProvider :: CloudProviderSpec
  Versions :: VersionConfig
  ContainerRuntime :: ContainerRuntimeConfig
  ClusterNetwork :: ClusterNetworkConfig
  Proxy :: ProxyConfig
  MachineController :: "MachineControllerConfig option"
  SystemPackages :: "SystemPackages option"
  RegistryConfiguration :: "RegistryConfiguration option"
  AssetConfiguration :: AssetConfiguration
  Features :: Features
  Addons :: "Addons option"

subsection \<open>Constants and the two defaulting helpers\<close>

definition DefaultPodSubnet :: string where
  "DefaultPodSubnet = ''10.244.0.0/16''"

definition DefaultServiceSubnet :: string where
  "DefaultServiceSubnet = ''10.96.0.0/12''"

definition DefaultServiceDNS :: string where
  "DefaultServiceDNS = ''cluster.local''"

definition DefaultNodePortRange :: string where
  "DefaultNodePortRange = ''30000-32767''"

definition DefaultStaticNoProxy :: string where
  "DefaultStaticNoProxy = ''127.0.0.1/8,localhost''"

definition DefaultCanalMTU :: int where
  "DefaultCanalMTU = 1450"

definition defaults :: "string \<Rightarrow> string \<Rightarrow> string" where
  "defaults input defaultValue = (if input \<noteq> [] then input else defaultValue)"

definition defaulti :: "int \<Rightarrow> int \<Rightarrow> int" where
  "defaulti input defaultValue = (if input \<noteq> 0 then input else defaultValue)"

subsection \<open>Hosts\<close>

definition defaultHostConfig :: "HostConfig \<Rightarrow> HostConfig" where
  "defaultHostConfig obj =
     (let o1 = (if length (PublicAddress obj) = 0 \<and> length (PrivateAddress obj) > 0
                then obj\<lparr>PublicAddress := PrivateAddress obj\<rparr> else obj);
          o2 = (if length (PrivateAddress o1) = 0 \<and> length (PublicAddress o1) > 0
                then o1\<lparr>PrivateAddress := PublicAddress o1\<rparr> else o1);
          o3 = (if SSHPrivateKeyFile o2 = []
                then o2\<lparr>SSHAgentSocket := defaults (SSHAgentSocket o2) ''env:SSH_AUTH_SOCK''\<rparr>
                else o2);
          o4 = o3\<lparr>SSHUsername := defaults (SSHUsername o3) ''root''\<rparr>;
          o5 = o4\<lparr>SSHPort := defaulti (SSHPort o4) 22\<rparr>;
          o6 = o5\<lparr>BastionPort := defaulti (BastionPort o5) 22\<rparr>
      in o6\<lparr>BastionUser := defaults (BastionUser o6) (SSHUsername o6)\<rparr>)"

definition masterTaint :: Taint where
  "masterTaint = \<lparr>Key = ''node-role.kubernetes.io/master'', Value = [], Effect = ''NoSchedule''\<rparr>"

text \<open>
  One iteration of the loop over \<open>obj.ControlPlane.Hosts\<close>, for the host at index
  \<open>idx\<close>: it returns the updated host and the updated \<open>setDefaultLeader\<close>.
\<close>

definition controlPlaneHostStep :: "nat \<Rightarrow> HostConfig \<Rightarrow> bool \<Rightarrow> HostConfig \<times> bool" where
  "controlPlaneHostStep idx h setDefaultLeader =
     (let sdl = (if setDefaultLeader \<and> IsLeader h then False else setDefaultLeader);
          h1 = defaultHostConfig (h\<lparr>ID := int idx\<rparr>);
          h2 = (if Taints h1 = None then h1\<lparr>Taints := Some [masterTaint]\<rparr> else h1)
      in (h2, sdl))"

text \<open>
  The loop itself. Iteration \<open>idx\<close> reads and writes only element \<open>idx\<close> of the slice,
  so the loop is a recursion over the remaining elements, with the index of the first one.
\<close>

fun controlPlaneHostsLoop :: "nat \<Rightarrow> HostConfig list \<Rightarrow> bool \<Rightarrow> HostConfig list \<times> bool" where
  "controlPlaneHostsLoop idx [] setDefaultLeader = ([], setDefaultLeader)"
| "controlPlaneHostsLoop idx (h # hs) setDefaultLeader =
     (case controlPlaneHostStep idx h setDefaultLeader of
        (h', sdl) \<Rightarrow>
          (case controlPlaneHostsLoop (Suc idx) hs sdl of
             (hs', sdl') \<Rightarrow> (h' # hs', sdl')))"

definition staticWorkerHostStep :: "nat \<Rightarrow> nat \<Rightarrow> HostConfig \<Rightarrow> HostConfig" where
  "staticWorkerHostStep ncp idx h =
     (let h1 = defaultHostConfig (h\<lparr>ID := int idx + int ncp\<rparr>)
      in if Taints h1 = None then h1\<lparr>Taints := Some []\<rparr> else h1)"

fun staticWorkerHostsLoop :: "nat \<Rightarrow> nat \<Rightarrow> HostConfig list \<Rightarrow> HostConfig list" where
  "staticWorkerHostsLoop ncp idx [] = []"
| "staticWorkerHostsLoop ncp idx (h # hs) =
     staticWorkerHostStep ncp idx h # staticWorkerHostsLoop ncp (Suc idx) hs"

definition SetDefaults_Hosts :: "KubeOneCluster \<Rightarrow> KubeOneCluster" where
  "SetDefaults_Hosts obj =
     (if length (ControlPlaneConfig.Hosts (ControlPlane obj)) = 0 then obj
      else
        (case controlPlaneHostsLoop 0 (ControlPlaneConfig.Hosts (ControlPlane obj)) True of
           (cps, setDefaultLeader) \<Rightarrow>
             (let cps' = (if setDefaultLeader then cps[0 := (cps ! 0)\<lparr>IsLeader := True\<rparr>] else cps);
                  sws = staticWorkerHostsLoop (length cps') 0
                          (StaticWorkersConfig.Hosts (StaticWorkers obj))
              in obj\<lparr>ControlPlane := (ControlPlane obj)\<lparr>ControlPlaneConfig.Hosts := cps'\<rparr>,
                     StaticWorkers := (StaticWorkers obj)\<lparr>StaticWorkersConfig.Hosts := sws\<rparr>\<rparr>)))"

subsection \<open>API endpoint and version\<close>

definition SetDefaults_APIEndpoints :: "KubeOneCluster \<Rightarrow> KubeOneCluster" where
  "SetDefaults_APIEndpoints obj =
     (let setPort = (\<lambda>c. c\<lparr>APIEndpoint := (APIEndpoint c)\<lparr>Port := defaulti (Port (APIEndpoint c)) 6443\<rparr>\<rparr>)
      in if length (Host (APIEndpoint obj)) = 0 then
           (if length (ControlPlaneConfig.Hosts (ControlPlane obj)) = 0 then obj
            else setPort (obj\<lparr>APIEndpoint := (APIEndpoint obj)
                   \<lparr>Host := PublicAddress (ControlPlaneConfig.Hosts (ControlPlane obj) ! 0)\<rparr>\<rparr>))
         else setPort obj)"

text \<open>Go's \<open>strings.TrimPrefix\<close> and \<open>strings.Join\<close>.\<close>

definition strings_TrimPrefix :: "string \<Rightarrow> string \<Rightarrow> string" where
  "strings_TrimPrefix s pre =
     (if take (length pre) s = pre then drop (length pre) s else s)"

fun strings_Join :: "string list \<Rightarrow> string \<Rightarrow> string" where
  "strings_Join [] sep = []"
| "strings_Join [x] sep = x"
| "strings_Join (x # y # ys) sep = x @ sep @ strings_Join (y # ys) sep"

definition SetDefaults_Versions :: "KubeOneCluster \<Rightarrow> KubeOneCluster" where
  "SetDefaults_Versions obj =
     obj\<lparr>Versions := (Versions obj)
           \<lparr>VersionConfig.Kubernetes :=
              strings_TrimPrefix (VersionConfig.Kubernetes (Versions obj)) ''v''\<rparr>\<rparr>"

subsection \<open>The semantic-version library calls\<close>

text \<open>
  \<open>SetDefaults_ContainerRuntime\<close> calls \<open>semver.NewVersion\<close> and checks the result
  against the constraint \<open>>= 1.22\<close>, both of the library
  \<open>github.com/Masterminds/semver/v3\<close>. The library is modelled by what it documents.
  \<open>NewVersion\<close> accepts exactly the strings of the form
  \<^verbatim>\<open>v?MAJOR(.MINOR)?(.PATCH)?(-PRERELEASE)?(+METADATA)?\<close>
  where the three numbers are non-empty digit strings that fit an unsigned 64-bit
  integer and prerelease and metadata are dot-separated non-empty identifiers over
  \<open>[0-9A-Za-z-]\<close>, a numeric identifier of the prerelease having no leading zero; a
  missing minor or patch number is 0. A constraint \<open>>= c\<close> without prerelease rejects
  every version that has a prerelease and otherwise compares major, minor and patch in
  this order. (A version with a prerelease therefore never selects containerd, whether
  it parses or not.)
\<close>

record Version =
  major :: nat
  minor :: nat
  patch :: nat
  pre :: string
  metadata :: string

definition isDigit :: "char \<Rightarrow> bool" where
  "isDigit c = (c \<in> set ''0123456789'')"

definition isIdentChar :: "char \<Rightarrow> bool" where
  "isIdentChar c =
     (c \<in> set ''0123456789abcdefghijklmnopqrstuvwxyzABCDEFGHIJKLMNOPQRSTUVWXYZ-'')"

definition parseUint64 :: "string \<Rightarrow> nat option" where
  "parseUint64 ds =
     (let n = foldl (\<lambda>a c. 10 * a + (of_char c - 48)) (0::nat) ds
      in if ds \<noteq> [] \<and> list_all isDigit ds \<and> n < 2 ^ 64 then Some n else None)"

fun splitOn :: "char \<Rightarrow> string \<Rightarrow> string list" where
  "splitOn d [] = [[]]"
| "splitOn d (c # cs) =
     (case splitOn d cs of
        [] \<Rightarrow> [[c]]
      | w # ws \<Rightarrow> if c = d then [] # w # ws else (c # w) # ws)"

definition validIdentifiers :: "string \<Rightarrow> bool" where
  "validIdentifiers s = list_all (\<lambda>seg. seg \<noteq> [] \<and> list_all isIdentChar seg) (splitOn CHR ''.'' s)"

text \<open>A numeric identifier of a prerelease has no leading zero.\<close>

definition validPrerelease :: "string \<Rightarrow> bool" where
  "validPrerelease s =
     (validIdentifiers s \<and>
      list_all (\<lambda>seg. \<not> (list_all isDigit seg \<and> length seg > 1 \<and> take 1 seg = ''0''))
        (splitOn CHR ''.'' s))"

text \<open>
  An optional \<open>.NUMBER\<close> group: \<open>None\<close> when a dot is there without digits after it
  (the whole match fails), otherwise the digits (empty when the group is absent) and
  the rest of the input.
\<close>

definition dotNumber :: "string \<Rightarrow> (string \<times> string) option" where
  "dotNumber s =
     (case s of
        c # r \<Rightarrow>
          if c = CHR ''.'' then
            (if takeWhile isDigit r = [] then None
             else Some (takeWhile isDigit r, dropWhile isDigit r))
          else Some ([], s)
      | [] \<Rightarrow> Some ([], s))"

text \<open>What follows the numbers: \<open>(-PRERELEASE)?(+METADATA)?\<close> up to the end of the input.\<close>

definition versionSuffix :: "string \<Rightarrow> (string \<times> string) option" where
  "versionSuffix s =
     (let meta = (\<lambda>p t.
            case t of
              [] \<Rightarrow> Some (p, [])
            | c # m \<Rightarrow> if c = CHR ''+'' \<and> validIdentifiers m then Some (p, m) else None)
      in case s of
           [] \<Rightarrow> Some ([], [])
         | c # r \<Rightarrow>
             if c = CHR ''-'' then
               (let p = takeWhile (\<lambda>x. x \<noteq> CHR ''+'') r
                in if validPrerelease p then meta p (dropWhile (\<lambda>x. x \<noteq> CHR ''+'') r) else None)
             else meta [] s)"

definition numberOrZero :: "string \<Rightarrow> nat option" where
  "numberOrZero ds = (if ds = [] then Some 0 else parseUint64 ds)"

definition semver_NewVersion :: "string \<Rightarrow> Version option" where
  "semver_NewVersion v =
     (let s0 = strings_TrimPrefix v ''v'';
          ma = takeWhile isDigit s0
      in case dotNumber (dropWhile isDigit s0) of
           None \<Rightarrow> None
         | Some (mi, s1) \<Rightarrow>
             (case (if mi = [] then Some ([], s1) else dotNumber s1) of
                None \<Rightarrow> None
              | Some (pa, s2) \<Rightarrow>
                  (case versionSuffix s2 of
                     None \<Rightarrow> None
                   | Some (p, m) \<Rightarrow>
                       (case (parseUint64 ma, numberOrZero mi, numberOrZero pa) of
                          (Some a, Some b, Some c) \<Rightarrow>
                            Some \<lparr>major = a, minor = b, patch = c, pre = p, metadata = m\<rparr>
                        | _ \<Rightarrow> None))))"

text \<open>\<open>c.Check(v)\<close> for the constraint \<open>c\<close> parsed from \<open>>= 1.22\<close>, that is \<open>>= 1.22.0\<close>.\<close>

definition gteKube122Condition_Check :: "Version \<Rightarrow> bool" where
  "gteKube122Condition_Check v =
     (pre v = [] \<and>
      (major v > 1 \<or> (major v = 1 \<and> (minor v > 22 \<or> (minor v = 22 \<and> patch v \<ge> 0)))))"

subsection \<open>Container runtime, cluster network, proxy\<close>

definition SetDefaults_ContainerRuntime :: "KubeOneCluster \<Rightarrow> KubeOneCluster" where
  "SetDefaults_ContainerRuntime obj =
     (if Docker (ContainerRuntime obj) \<noteq> None then obj
      else if Containerd (ContainerRuntime obj) \<noteq> None then obj
      else
        (case semver_NewVersion (VersionConfig.Kubernetes (Versions obj)) of
           None \<Rightarrow> obj
         | Some actualVer \<Rightarrow>
             if gteKube122Condition_Check actualVer
             then obj\<lparr>ContainerRuntime :=
                        (ContainerRuntime obj)\<lparr>Containerd := Some ContainerRuntimeContainerd\<rparr>\<rparr>
             else obj))"

text \<open>
  The first half of \<open>SetDefaults_ClusterNetwork\<close> after the four string defaults: the
  local \<open>defaultCanal\<close> and the \<open>switch\<close> over the cloud provider that assigns its MTU.
\<close>

definition defaultCanal :: "CloudProviderSpec \<Rightarrow> CanalSpec" where
  "defaultCanal cp =
     (let dc = \<lparr>MTU = DefaultCanalMTU\<rparr>
      in if AWS cp \<noteq> None then dc\<lparr>MTU := defaulti (MTU dc) 8951\<rparr>
         else if GCE cp \<noteq> None then dc\<lparr>MTU := defaulti (MTU dc) 1410\<rparr>
         else if Hetzner cp \<noteq> None then dc\<lparr>MTU := defaulti (MTU dc) 1400\<rparr>
         else if Openstack cp \<noteq> None then dc\<lparr>MTU := defaulti (MTU dc) 1400\<rparr>
         else dc)"

definition SetDefaults_ClusterNetwork :: "KubeOneCluster \<Rightarrow> KubeOneCluster" where
  "SetDefaults_ClusterNetwork obj =
     (let cn0 = ClusterNetwork obj;
          cn1 = cn0\<lparr>PodSubnet := defaults (PodSubnet cn0) DefaultPodSubnet\<rparr>;
          cn2 = cn1\<lparr>ServiceSubnet := defaults (ServiceSubnet cn1) DefaultServiceSubnet\<rparr>;
          cn3 = cn2\<lparr>ServiceDomainName := defaults (ServiceDomainName cn2) DefaultServiceDNS\<rparr>;
          cn4 = cn3\<lparr>NodePortRange := defaults (NodePortRange cn3) DefaultNodePortRange\<rparr>;
          dc = defaultCanal (CloudProvider obj);
          cni1 = (case CNI cn4 of
                    None \<Rightarrow> \<lparr>Canal = Some dc, Cilium = None\<rparr>
                  | Some c \<Rightarrow> c);
          cni2 = (case Canal cni1 of
                    Some canal \<Rightarrow>
                      if MTU canal = 0 then cni1\<lparr>Canal := Some (canal\<lparr>MTU := MTU dc\<rparr>)\<rparr> else cni1
                  | None \<Rightarrow> cni1);
          cni3 = (case Cilium cni2 of
                    Some cilium \<Rightarrow>
                      if KubeProxyReplacement cilium = []
                      then cni2\<lparr>Cilium := Some (cilium\<lparr>KubeProxyReplacement := ''disabled''\<rparr>)\<rparr>
                      else cni2
                  | None \<Rightarrow> cni2)
      in obj\<lparr>ClusterNetwork := cn4\<lparr>CNI := Some cni3\<rparr>\<rparr>)"

definition SetDefaults_Proxy :: "KubeOneCluster \<Rightarrow> KubeOneCluster" where
  "SetDefaults_Proxy obj =
     (if HTTP (Proxy obj) = [] \<and> HTTPS (Proxy obj) = [] then obj
      else
        (let noproxy = [DefaultStaticNoProxy,
                        ServiceDomainName (ClusterNetwork obj),
                        PodSubnet (ClusterNetwork obj),
                        ServiceSubnet (ClusterNetwork obj)];
             noproxy' = (if NoProxy (Proxy obj) \<noteq> [] then noproxy @ [NoProxy (Proxy obj)]
                         else noproxy)
         in obj\<lparr>Proxy := (Proxy obj)\<lparr>NoProxy := strings_Join noproxy' '',''\<rparr>\<rparr>))"

subsection \<open>Machine controller, system packages, assets, features, addons\<close>

definition SetDefaults_MachineController :: "KubeOneCluster \<Rightarrow> KubeOneCluster" where
  "SetDefaults_MachineController obj =
     (if MachineController obj = None
      then obj\<lparr>MachineController := Some \<lparr>Deploy = True\<rparr>\<rparr> else obj)"

definition SetDefaults_SystemPackages :: "KubeOneCluster \<Rightarrow> KubeOneCluster" where
  "SetDefaults_SystemPackages obj =
     (if SystemPackages obj = None
      then obj\<lparr>SystemPackages := Some \<lparr>ConfigureRepositories = True\<rparr>\<rparr> else obj)"

text \<open>
  \<open>SetDefaults_AssetConfiguration\<close> assigns
  \<open>defaults(x.ImageRepository, obj.RegistryConfiguration.OverwriteRegistry)\<close> to the
  image repository of four assets \<open>x\<close>, one after the other; the assignment is written
  once.
\<close>

definition defaultImageRepository :: "string \<Rightarrow> ImageAsset \<Rightarrow> ImageAsset" where
  "defaultImageRepository reg a = a\<lparr>ImageRepository := defaults (ImageRepository a) reg\<rparr>"

definition SetDefaults_AssetConfiguration :: "KubeOneCluster \<Rightarrow> KubeOneCluster" where
  "SetDefaults_AssetConfiguration obj =
     (case RegistryConfiguration obj of
        None \<Rightarrow> obj
      | Some rc \<Rightarrow>
          if OverwriteRegistry rc = [] then obj
          else
            (let ac = AssetConfiguration obj;
                 reg = OverwriteRegistry rc;
                 ac1 = ac\<lparr>AssetConfiguration.Kubernetes :=
                           defaultImageRepository reg (AssetConfiguration.Kubernetes ac)\<rparr>;
                 ac2 = ac1\<lparr>CoreDNS := defaultImageRepository reg (CoreDNS ac1)\<rparr>;
                 ac3 = ac2\<lparr>Etcd := defaultImageRepository reg (Etcd ac2)\<rparr>;
                 ac4 = ac3\<lparr>AssetConfiguration.MetricsServer :=
                            defaultImageRepository reg (AssetConfiguration.MetricsServer ac3)\<rparr>
             in obj\<lparr>AssetConfiguration := ac4\<rparr>))"

definition defaultStaticAuditLogConfig :: "StaticAuditLogConfig \<Rightarrow> StaticAuditLogConfig" where
  "defaultStaticAuditLogConfig obj =
     (let o1 = obj\<lparr>LogPath := defaults (LogPath obj) ''/var/log/kubernetes/audit.log''\<rparr>;
          o2 = o1\<lparr>LogMaxAge := defaulti (LogMaxAge o1) 30\<rparr>;
          o3 = o2\<lparr>LogMaxBackup := defaulti (LogMaxBackup o2) 3\<rparr>
      in o3\<lparr>LogMaxSize := defaulti (LogMaxSize o3) 100\<rparr>)"

definition defaultOpenIDConnect :: "OpenIDConnectConfig \<Rightarrow> OpenIDConnectConfig" where
  "defaultOpenIDConnect config =
     (let c1 = config\<lparr>ClientID := defaults (ClientID config) ''kubernetes''\<rparr>;
          c2 = c1\<lparr>UsernameClaim := defaults (UsernameClaim c1) ''sub''\<rparr>;
          c3 = c2\<lparr>UsernamePrefix := defaults (UsernamePrefix c2) ''oidc:''\<rparr>;
          c4 = c3\<lparr>GroupsClaim := defaults (GroupsClaim c3) ''groups''\<rparr>;
          c5 = c4\<lparr>GroupsPrefix := defaults (GroupsPrefix c4) ''oidc:''\<rparr>
      in c5\<lparr>SigningAlgs := defaults (SigningAlgs c5) ''RS256''\<rparr>)"

definition SetDefaults_Features :: "KubeOneCluster \<Rightarrow> KubeOneCluster" where
  "SetDefaults_Features obj =
     (let f0 = Features obj;
          f1 = (if Features.MetricsServer f0 = None
                then f0\<lparr>Features.MetricsServer := Some \<lparr>MetricsServer.Enable = True\<rparr>\<rparr> else f0);
          f2 = (case StaticAuditLog f1 of
                  Some sal \<Rightarrow>
                    if StaticAuditLog.Enable sal
                    then f1\<lparr>StaticAuditLog := Some (sal\<lparr>StaticAuditLog.Config :=
                               defaultStaticAuditLogConfig (StaticAuditLog.Config sal)\<rparr>)\<rparr>
                    else f1
                | None \<Rightarrow> f1);
          f3 = (case OpenIDConnect f2 of
                  Some oidc \<Rightarrow>
                    if OpenIDConnect.Enable oidc
                    then f2\<lparr>OpenIDConnect := Some (oidc\<lparr>OpenIDConnect.Config :=
                               defaultOpenIDConnect (OpenIDConnect.Config oidc)\<rparr>)\<rparr>
                    else f2
                | None \<Rightarrow> f2)
      in obj\<lparr>Features := f3\<rparr>)"

definition SetDefaults_Addons :: "KubeOneCluster \<Rightarrow> KubeOneCluster" where
  "SetDefaults_Addons obj =
     (case Addons obj of
        Some a \<Rightarrow>
          if Addons.Enable a
          then obj\<lparr>Addons := Some (a\<lparr>Path := defaults (Path a) ''./addons''\<rparr>)\<rparr>
          else obj
      | None \<Rightarrow> obj)"

subsection \<open>The whole defaulting pass\<close>

definition SetDefaults_KubeOneCluster :: "KubeOneCluster \<Rightarrow> KubeOneCluster" where
  "SetDefaults_KubeOneCluster obj =
     SetDefaults_Addons
       (SetDefaults_Features
         (SetDefaults_AssetConfiguration
           (SetDefaults_SystemPackages
             (SetDefaults_MachineController
               (SetDefaults_Proxy
                 (SetDefaults_ClusterNetwork
                   (SetDefaults_ContainerRuntime
                     (SetDefaults_Versions
                       (SetDefaults_APIEndpoints
                         (SetDefaults_Hosts obj))))))))))"

subsection \<open>Zero values\<close>

text \<open>
  The Go zero values of \<open>HostConfig\<close> and \<open>KubeOneCluster\<close>: what parsing leaves in
  every field that the user did not write.
\<close>

definition zeroHostConfig :: HostConfig where
  "zeroHostConfig =
     \<lparr>ID = 0, PublicAddress = [], PrivateAddress = [], SSHPort = 0, SSHUsername = [],
      SSHPrivateKeyFile = [], SSHAgentSocket = [], BastionPort = 0, BastionUser = [],
      IsLeader = False, Taints = None\<rparr>"

definition zeroKubeOneCluster :: KubeOneCluster where
  "zeroKubeOneCluster =
     \<lparr>Name = [],
      ControlPlane = \<lparr>ControlPlaneConfig.Hosts = []\<rparr>,
      StaticWorkers = \<lparr>StaticWorkersConfig.Hosts = []\<rparr>,
      DynamicWorkers = [],
      APIEndpoint = \<lparr>Host = [], Port = 0\<rparr>,
      CloudProvider = \<lparr>AWS = None, GCE = None, Hetzner = None, Openstack = None\<rparr>,
      Versions = \<lparr>VersionConfig.Kubernetes = []\<rparr>,
      ContainerRuntime = \<lparr>Docker = None, Containerd = None\<rparr>,
      ClusterNetwork = \<lparr>PodSubnet = [], ServiceSubnet = [], ServiceDomainName = [],
                         NodePortRange = [], CNI = None\<rparr>,
      Proxy = \<lparr>HTTP = [], HTTPS = [], NoProxy = []\<rparr>,
      MachineController = None,
      SystemPackages = None,
      RegistryConfiguration = None,
      AssetConfiguration =
        \<lparr>AssetConfiguration.Kubernetes = \<lparr>ImageRepository = []\<rparr>,
         CoreDNS = \<lparr>ImageRepository = []\<rparr>,
         Etcd = \<lparr>ImageRepository = []\<rparr>,
         AssetConfiguration.MetricsServer = \<lparr>ImageRepository = []\<rparr>\<rparr>,
      Features = \<lparr>Features.MetricsServer = None, StaticAuditLog = None, OpenIDConnect = None\<rparr>,
      Addons = None\<rparr>"

text \<open>A cluster with the given control-plane and static-worker hosts, all else zero.\<close>

definition clusterWithHosts :: "HostConfig list \<Rightarrow> HostConfig list \<Rightarrow> KubeOneCluster" where
  "clusterWithHosts cps sws =
     zeroKubeOneCluster
       \<lparr>ControlPlane := \<lparr>ControlPlaneConfig.Hosts = cps\<rparr>,
        StaticWorkers := \<lparr>StaticWorkersConfig.Hosts = sws\<rparr>\<rparr>"

text \<open>The IDs of all hosts, control-plane hosts first, and the leader flags.\<close>

definition allHostIDs :: "KubeOneCluster \<Rightarrow> int list" where
  "allHostIDs obj =
     map ID (ControlPlaneConfig.Hosts (ControlPlane obj)
             @ StaticWorkersConfig.Hosts (StaticWorkers obj))"

definition controlPlaneLeaders :: "KubeOneCluster \<Rightarrow> bool list" where
  "controlPlaneLeaders obj = map IsLeader (ControlPlaneConfig.Hosts (ControlPlane obj))"

text \<open>A cluster on AWS, and a cluster that asks for a Kubernetes version, all else zero.\<close>

definition awsCluster :: KubeOneCluster where
  "awsCluster = zeroKubeOneCluster\<lparr>CloudProvider := (CloudProvider zeroKubeOneCluster)\<lparr>AWS := Some ()\<rparr>\<rparr>"

definition clusterWithVersion :: "string \<Rightarrow> KubeOneCluster" where
  "clusterWithVersion v = zeroKubeOneCluster\<lparr>Versions := \<lparr>VersionConfig.Kubernetes = v\<rparr>\<rparr>"

text \<open>A cluster behind an HTTP proxy, all else zero.\<close>

definition proxyCluster :: KubeOneCluster where
  "proxyCluster =
     zeroKubeOneCluster\<lparr>Proxy := \<lparr>HTTP = ''http://proxy.example:3128'', HTTPS = [], NoProxy = []\<rparr>\<rparr>"

section \<open>Errors\<close>

text \<open>
  The error values of the two packages below: \<open>fmt.Errorf("%q not found", key)\<close>,
  \<open>errors.New(msg)\<close>, \<open>errors.Wrap(err, msg)\<close>, and an error that a library call
  returned. A nil pointer dereference is a panic, not an error value.
\<close>

datatype error =
    ErrorfNotFound string
  | ErrorsNew string
  | ErrorsWrap error string
  | LibraryError string

datatype panic = NilPointerDereference

section \<open>Package certificate\<close>

subsection \<open>\<open>CAKeyPair\<close>\<close>

text \<open>
  \<open>configupload.Configuration\<close> holds the PKI bundle, a map from file paths to file
  contents. What \<open>keyutil.ParsePrivateKeyPEM\<close> returns is an interface value; the code
  asks whether it is an \<open>*rsa.PrivateKey\<close>.
\<close>

record Configuration =
  KubernetesPKI :: "string \<rightharpoonup> string"

datatype ('rsa, 'other) PrivateKey = RSAPrivateKey 'rsa | OtherPrivateKey 'other

text \<open>
  The two path constants are declared in another file of the package: they are
  parameters, as are the calls that leave \<open>k8s.io/client-go\<close>: the blocks that
  successive calls of \<open>pem.Decode\<close> find in a file, \<open>x509.ParseCertificate\<close> on the
  bytes of a block, and \<open>keyutil.ParsePrivateKeyPEM\<close>. A library call that fails returns
  an error of the library, kept as its message.
\<close>

record ('cert, 'rsa, 'other) pki_env =
  KubernetesCACertPath :: string
  KubernetesCAKeyPath :: string
  pem_Blocks :: "string \<Rightarrow> pem_Block list"
  x509_ParseCertificate :: "string \<Rightarrow> string + 'cert"
  ParsePrivateKeyPEM :: "string \<Rightarrow> string + ('rsa, 'other) PrivateKey"

text \<open>
  \<open>certutil.ParseCertsPEM\<close> of \<open>k8s.io/client-go\<close>, by what it documents: it walks
  through the blocks of the file, skips every block that is not of type \<open>CERTIFICATE\<close>
  or has headers, parses the others and stops at the first that does not parse; when no
  block gave a certificate, it returns an error. An empty file has no block. So the
  function never returns an empty list without an error.
\<close>

definition CertificateBlockType :: string where
  "CertificateBlockType = ''CERTIFICATE''"

fun parseCertBlocks ::
  "(string \<Rightarrow> string + 'cert) \<Rightarrow> pem_Block list \<Rightarrow> 'cert list \<Rightarrow> bool \<Rightarrow> error + 'cert list" where
  "parseCertBlocks parse [] certs ok =
     (if ok then Inr certs
      else Inl (LibraryError ''data does not contain any valid RSA or ECDSA certificates''))"
| "parseCertBlocks parse (block # blocks) certs ok =
     (if pem_Block.Type block = CertificateBlockType \<and> length (Headers block) = 0
      then (case parse (Bytes block) of
              Inl msg \<Rightarrow> Inl (LibraryError msg)
            | Inr cert \<Rightarrow> parseCertBlocks parse blocks (certs @ [cert]) True)
      else parseCertBlocks parse blocks certs ok)"

definition ParseCertsPEM :: "('cert, 'rsa, 'other) pki_env \<Rightarrow> string \<Rightarrow> error + 'cert list" where
  "ParseCertsPEM env pemCerts =
     parseCertBlocks (x509_ParseCertificate env)
       (if length pemCerts > 0 then pem_Blocks env pemCerts else []) [] False"

text \<open>
  The blocks of a file that \<open>ParseCertsPEM\<close> parses; a file without any decodes to zero
  certificates.
\<close>

definition certificateBlocks :: "('cert, 'rsa, 'other) pki_env \<Rightarrow> string \<Rightarrow> pem_Block list" where
  "certificateBlocks env pemCerts =
     filter (\<lambda>block. pem_Block.Type block = CertificateBlockType \<and> length (Headers block) = 0)
       (if length pemCerts > 0 then pem_Blocks env pemCerts else [])"

definition CAKeyPair ::
  "('cert, 'rsa, 'other) pki_env \<Rightarrow> Configuration \<Rightarrow> error + ('rsa \<times> 'cert)" where
  "CAKeyPair env config =
     (case KubernetesPKI config (KubernetesCACertPath env) of
        None \<Rightarrow> Inl (ErrorfNotFound (KubernetesCACertPath env))
      | Some caCert \<Rightarrow>
          (case KubernetesPKI config (KubernetesCAKeyPath env) of
             None \<Rightarrow> Inl (ErrorfNotFound (KubernetesCAKeyPath env))
           | Some caKey \<Rightarrow>
               (case ParseCertsPEM env caCert of
                  Inl err \<Rightarrow> Inl err
                | Inr certs \<Rightarrow>
                    if length certs = 0
                    then Inl (ErrorsNew ''ca.crt does not contain at least one valid certificate'')
                    else
                      (case ParsePrivateKeyPEM env caKey of
                         Inl msg \<Rightarrow> Inl (LibraryError msg)
                       | Inr possibleKey \<Rightarrow>
                           (case possibleKey of
                              OtherPrivateKey k \<Rightarrow>
                                Inl (ErrorsNew ''private key is not a RSA private key'')
                            | RSAPrivateKey rsaKey \<Rightarrow> Inr (rsaKey, certs ! 0))))))"

subsection \<open>\<open>NewSignedTLSCert\<close>\<close>

datatype ExtKeyUsage = ExtKeyUsageAny | ExtKeyUsageServerAuth | ExtKeyUsageClientAuth

record AltNames =
  DNSNames :: "string list"

record certutil_Config =
  CommonName :: string
  AltNames :: AltNames
  Usages :: "ExtKeyUsage list"

text \<open>
  An \<open>x509.Certificate\<close>, as far as the claims speak of it: the common names of subject
  and issuer, the subject alternative DNS names, the extended key usages, the public key
  it certifies and the key that signed it.
\<close>

record 'key Certificate =
  Subject_CommonName :: string
  Issuer_CommonName :: string
  DNSNames :: "string list"
  ExtKeyUsage :: "ExtKeyUsage list"
  PublicKey :: 'key
  SignedWith :: 'key

text \<open>
  Modelled from the spec: \<open>newSignedCert\<close>, a function of this package that is not in
  the sources at hand. The spec says that the leaf certificate is built from the subject
  with the given common name, the alternative DNS names and the extended key usage, and
  that it is signed with the CA key and certificate. Signing draws random numbers and can
  fail: the first argument is the error of that attempt, if any.
\<close>

definition newSignedCert ::
  "error option \<Rightarrow> certutil_Config \<Rightarrow> 'key \<Rightarrow> 'key Certificate \<Rightarrow> 'key
     \<Rightarrow> error + 'key Certificate" where
  "newSignedCert failure cfg key caCert caKey =
     (case failure of
        Some err \<Rightarrow> Inl err
      | None \<Rightarrow>
          Inr \<lparr>Subject_CommonName = CommonName cfg,
               Issuer_CommonName = Subject_CommonName caCert,
               Certificate.DNSNames = AltNames.DNSNames (AltNames cfg),
               ExtKeyUsage = Usages cfg,
               PublicKey = key,
               SignedWith = caKey\<rparr>)"

text \<open>
  Modelled from the spec: \<open>encodeCertPEM\<close> and \<open>encodePrivateKeyPEM\<close>, functions of this
  package that are not in the sources at hand. The spec says that the bundle holds the
  PEM-encoded certificate, key and CA certificate; a PEM encoding is kept as the value
  it encodes.
\<close>

datatype 'key pem = CertificatePEM "'key Certificate" | PrivateKeyPEM 'key

definition encodeCertPEM :: "'key Certificate \<Rightarrow> 'key pem" where
  "encodeCertPEM cert = CertificatePEM cert"

definition encodePrivateKeyPEM :: "'key \<Rightarrow> 'key pem" where
  "encodePrivateKeyPEM key = PrivateKeyPEM key"

text \<open>
  \<open>newPrivateKey\<close> (not in the sources at hand either) generates a fresh key from
  random numbers: its outcome is a parameter, as are the three key names of package
  \<open>resources\<close> and the outcome of signing.
\<close>

record 'key tls_env =
  newPrivateKey :: "error + 'key"
  signingFailure :: "error option"
  TLSCertName :: string
  TLSKeyName :: string
  KubernetesCACertName :: string

definition NewSignedTLSCert ::
  "'key tls_env \<Rightarrow> string \<Rightarrow> string \<Rightarrow> string \<Rightarrow> 'key \<Rightarrow> 'key Certificate
     \<Rightarrow> error + (string \<rightharpoonup> 'key pem)" where
  "NewSignedTLSCert env name namespace domain caKey caCert =
     (let serviceCommonName = strings_Join [name, namespace, ''svc''] ''.'';
          serviceFQDNCommonName = strings_Join [serviceCommonName, domain, []] ''.'';
          altdnsNames = [serviceFQDNCommonName, serviceCommonName]
      in case newPrivateKey env of
           Inl err \<Rightarrow> Inl (ErrorsWrap err ''failed to generate private key'')
         | Inr newKPKey \<Rightarrow>
             (let certCfg = \<lparr>CommonName = serviceCommonName,
                             AltNames = \<lparr>AltNames.DNSNames = altdnsNames\<rparr>,
                             Usages = [ExtKeyUsageServerAuth]\<rparr>
              in case newSignedCert (signingFailure env) certCfg newKPKey caCert caKey of
                   Inl err \<Rightarrow> Inl (ErrorsWrap err ''failed to generate certificate'')
                 | Inr newKPCert \<Rightarrow>
                     Inr [TLSCertName env \<mapsto> encodeCertPEM newKPCert,
                          TLSKeyName env \<mapsto> encodePrivateKeyPEM newKPKey,
                          KubernetesCACertName env \<mapsto> encodeCertPEM caCert]))"

text \<open>The alternative DNS names of the certificate in a returned bundle, as a set.\<close>

definition issuedDNSNames ::
  "'key tls_env \<Rightarrow> error + (string \<rightharpoonup> 'key pem) \<Rightarrow> string set option" where
  "issuedDNSNames env r =
     (case r of
        Inl err \<Rightarrow> None
      | Inr bundle \<Rightarrow>
          (case bundle (TLSCertName env) of
             Some (CertificatePEM cert) \<Rightarrow> Some (set (Certificate.DNSNames cert))
           | _ \<Rightarrow> None))"

text \<open>A CA and an environment in which key generation and signing succeed; keys are numbers.\<close>

definition sampleCA :: "nat Certificate" where
  "sampleCA =
     \<lparr>Subject_CommonName = ''kubernetes'', Issuer_CommonName = ''kubernetes'',
      Certificate.DNSNames = [], ExtKeyUsage = [], PublicKey = 1, SignedWith = 1\<rparr>"

definition sampleTLSEnv :: "nat tls_env" where
  "sampleTLSEnv =
     \<lparr>newPrivateKey = Inr 2, signingFailure = None,
      TLSCertName = ''cert.pem'', TLSKeyName = ''key.pem'', KubernetesCACertName = ''ca.pem''\<rparr>"

text \<open>
  A PKI environment for evaluation: a file is one block whose type is the text before
  the first colon and whose bytes are the rest; the certificate parser refuses the bytes
  \<open>garbage\<close>, the key parser refuses the file \<open>garbage\<close> and finds an ECDSA key in the
  file \<open>ecdsa key\<close>. Bundles have the two entries given or missing.
\<close>

definition samplePKIEnv :: "(string, nat, nat) pki_env" where
  "samplePKIEnv =
     \<lparr>KubernetesCACertPath = ''/etc/kubernetes/pki/ca.crt'',
      KubernetesCAKeyPath = ''/etc/kubernetes/pki/ca.key'',
      pem_Blocks = (\<lambda>pem.
        [\<lparr>pem_Block.Type = takeWhile (\<lambda>c. c \<noteq> CHR '':'') pem, Headers = [],
          Bytes = drop 1 (dropWhile (\<lambda>c. c \<noteq> CHR '':'') pem)\<rparr>]),
      x509_ParseCertificate = (\<lambda>bytes. if bytes = ''garbage'' then Inl ''malformed certificate''
                                         else Inr bytes),
      ParsePrivateKeyPEM = (\<lambda>pem. if pem = ''garbage'' then Inl ''malformed key''
                                   else if pem = ''ecdsa key'' then Inr (OtherPrivateKey 5)
                                   else Inr (RSAPrivateKey 7))\<rparr>"

definition samplePKI :: "string option \<Rightarrow> string option \<Rightarrow> Configuration" where
  "samplePKI cert key =
     \<lparr>KubernetesPKI = (\<lambda>path. if path = ''/etc/kubernetes/pki/ca.crt'' then cert
                               else if path = ''/etc/kubernetes/pki/ca.key'' then key
                               else None)\<rparr>"

section \<open>Package machinecontroller\<close>

text \<open>
  \<open>AWSSpec\<close> is declared in another file of the package. The code reads and writes its
  \<open>Tags\<close>, a map that is \<open>nil\<close> when the payload has none; its other fields are kept
  as one value of a type parameter.
\<close>

record 'x AWSSpec =
  Tags :: "(string \<rightharpoonup> string) option"
  otherFields :: 'x

text \<open>
  The calls of \<open>encoding/json\<close> are parameters: \<open>json.Unmarshal\<close> into an \<open>AWSSpec\<close>
  and \<open>json.Marshal\<close> of one, \<open>json.Unmarshal\<close> into a \<open>map[string]interface{}\<close>
  (the type \<open>'obj\<close>) and \<open>json.Marshal\<close> of such a map, and \<open>json.Marshal\<close> of the
  provider spec together with the cloud provider's name. \<open>CloudProviderName\<close> is a
  method declared with the API types.
\<close>

record ('x, 'obj) json_env =
  unmarshalAWSSpec :: "string \<Rightarrow> error + 'x AWSSpec"
  marshalAWSSpec :: "'x AWSSpec \<Rightarrow> error + string"
  unmarshalSpec :: "string \<Rightarrow> error + 'obj"
  marshalSpec :: "'obj \<Rightarrow> error + string"
  marshalProviderSpec :: "ProviderSpec \<Rightarrow> string \<Rightarrow> error + string"
  CloudProviderName :: "CloudProviderSpec \<Rightarrow> string"

text \<open>
  The lines of \<open>machineSpec\<close> between parsing the AWS payload and serializing it again:
  the tag \<open>kubernetes.io/cluster/<name>\<close> is set to \<open>shared\<close> in the tag map, which is
  made first when it is \<open>nil\<close>.
\<close>

definition tagName :: "KubeOneCluster \<Rightarrow> string" where
  "tagName cluster = ''kubernetes.io/cluster/'' @ KubeOneCluster.Name cluster"

definition setClusterTag :: "KubeOneCluster \<Rightarrow> 'x AWSSpec \<Rightarrow> 'x AWSSpec" where
  "setClusterTag cluster awsSpec =
     (let tagValue = ''shared'';
          tags = (case Tags awsSpec of None \<Rightarrow> Map.empty | Some t \<Rightarrow> t)
      in awsSpec\<lparr>Tags := Some (tags(tagName cluster \<mapsto> tagValue))\<rparr>)"

definition machineSpec ::
  "('x, 'obj) json_env \<Rightarrow> KubeOneCluster \<Rightarrow> DynamicWorkerConfig \<Rightarrow> CloudProviderSpec
     \<Rightarrow> error + 'obj" where
  "machineSpec js cluster workerset provider =
     (case ProviderSpec.CloudProviderSpec (DynamicWorkerConfig.Config workerset) of
        None \<Rightarrow> Inl (ErrorsNew ''could't find cloudProviderSpec'')
      | Some specRaw \<Rightarrow>
          (case (if CloudProviderSpec.AWS provider \<noteq> None then
                   (case unmarshalAWSSpec js specRaw of
                      Inl err \<Rightarrow>
                        Inl (ErrorsWrap err ''could not parse AWS Spec for worker machines'')
                    | Inr awsSpec \<Rightarrow>
                        (case marshalAWSSpec js (setClusterTag cluster awsSpec) of
                           Inl err \<Rightarrow> Inl (ErrorsWrap err ''could not marshal AWSSpec'')
                         | Inr specRaw' \<Rightarrow> Inr specRaw'))
                 else Inr specRaw) of
             Inl err \<Rightarrow> Inl err
           | Inr specRaw' \<Rightarrow>
               (case unmarshalSpec js specRaw' of
                  Inl err \<Rightarrow> Inl (ErrorsWrap err ''unable to parse the workerset spec'')
                | Inr spec \<Rightarrow> Inr spec)))"

text \<open>
  \<open>labels.Merge\<close> of the Kubernetes library: the entries of the first map, then those
  of the second, which win.
\<close>

definition labels_Merge :: "(string \<rightharpoonup> string) \<Rightarrow> (string \<rightharpoonup> string) \<Rightarrow> (string \<rightharpoonup> string)" where
  "labels_Merge labels1 labels2 = labels1 ++ labels2"

definition NamespaceSystem :: string where
  "NamespaceSystem = ''kube-system''"

definition RollingUpdateMachineDeploymentStrategyType :: string where
  "RollingUpdateMachineDeploymentStrategyType = ''RollingUpdate''"

text \<open>
  \<open>createMachineDeployment\<close> returns an error or the object, or it panics: \<open>Replicas\<close>
  is dereferenced without a test. \<open>int32(...)\<close> keeps the low 32 bits.
\<close>

definition createMachineDeployment ::
  "('x, 'obj) json_env \<Rightarrow> KubeOneCluster \<Rightarrow> DynamicWorkerConfig
     \<Rightarrow> panic + (error + MachineDeployment)" where
  "createMachineDeployment js cluster workerset =
     (case machineSpec js cluster workerset (CloudProvider cluster) of
        Inl err \<Rightarrow> Inr (Inl (ErrorsWrap err ''failed to generate machineSpec''))
      | Inr cloudProviderSpec \<Rightarrow>
          (case marshalSpec js cloudProviderSpec of
             Inl err \<Rightarrow> Inr (Inl (ErrorsWrap err ''failed to marshal cloudProviderSpec to JSON''))
           | Inr cloudProviderSpecJSON \<Rightarrow>
               (let config = (DynamicWorkerConfig.Config workerset)
                               \<lparr>ProviderSpec.CloudProviderSpec := Some cloudProviderSpecJSON\<rparr>
                in case marshalProviderSpec js config
                          (CloudProviderName js (CloudProvider cluster)) of
                     Inl err \<Rightarrow> Inr (Inl (ErrorsWrap err ''failed to JSON marshal providerSpec''))
                   | Inr encoded \<Rightarrow>
                       (case DynamicWorkerConfig.Replicas workerset of
                          None \<Rightarrow> Inl NilPointerDereference
                        | Some r \<Rightarrow>
                            (let replicas = (ucast r :: 32 word);
                                 minReadySeconds = (0 :: 32 word);
                                 workersetNameLabels =
                                   [''workerset'' \<mapsto> DynamicWorkerConfig.Name workerset];
                                 maxSurge0 = FromInt 1;
                                 maxUnavailable0 = FromInt 0;
                                 maxSurge = (if Network config \<noteq> None
                                             then FromInt 0 else maxSurge0);
                                 maxUnavailable = (if Network config \<noteq> None
                                                   then FromInt 1 else maxUnavailable0)
                             in Inr (Inr
                               \<lparr>MachineDeployment.ObjectMeta =
                                  \<lparr>ObjectMeta.Annotations = ProviderSpec.Annotations config,
                                   ObjectMeta.Labels = Map.empty,
                                   Namespace = NamespaceSystem,
                                   ObjectMeta.Name = DynamicWorkerConfig.Name workerset\<rparr>,
                                MachineDeployment.Spec =
                                  \<lparr>Paused = False,
                                   MachineDeploymentSpec.Replicas = Some replicas,
                                   Selector = \<lparr>MatchLabels = workersetNameLabels\<rparr>,
                                   Strategy = Some
                                     \<lparr>Type = RollingUpdateMachineDeploymentStrategyType,
                                      RollingUpdate = Some
                                        \<lparr>MaxSurge = Some maxSurge,
                                         MaxUnavailable = Some maxUnavailable\<rparr>\<rparr>,
                                   MinReadySeconds = Some minReadySeconds,
                                   Template =
                                     \<lparr>MachineTemplateSpec.ObjectMeta =
                                        \<lparr>ObjectMeta.Annotations = Map.empty,
                                         ObjectMeta.Labels =
                                           labels_Merge (ProviderSpec.Labels config)
                                             workersetNameLabels,
                                         Namespace = NamespaceSystem,
                                         ObjectMeta.Name = []\<rparr>,
                                      MachineTemplateSpec.Spec =
                                        \<lparr>MachineSpec.ObjectMeta =
                                           \<lparr>ObjectMeta.Annotations =
                                              ProviderSpec.MachineAnnotations config,
                                            ObjectMeta.Labels =
                                              labels_Merge (ProviderSpec.Labels config)
                                                workersetNameLabels,
                                            Namespace = [],
                                            ObjectMeta.Name = []\<rparr>,
                                         MachineSpec.Versions =
                                           \<lparr>Kubelet = VersionConfig.Kubernetes (Versions cluster)\<rparr>,
                                         MachineSpec.ProviderSpec =
                                           \<lparr>Value = Some \<lparr>Raw = encoded\<rparr>\<rparr>,
                                         MachineSpec.Taints = ProviderSpec.Taints config\<rparr>\<rparr>\<rparr>\<rparr>))))))"

text \<open>
  \<open>CreateMachineDeployments\<close> applies one object after the other through the dynamic
  client. What the client has done so far is its state \<open>'c\<close>; \<open>clientutil.CreateOrUpdate\<close>
  is a parameter that takes this state on and may return an error.
\<close>

record 'c State =
  DynamicClient :: "'c option"
  Cluster :: KubeOneCluster

fun applyMachineDeployments ::
  "('x, 'obj) json_env \<Rightarrow> ('c \<Rightarrow> MachineDeployment \<Rightarrow> 'c \<times> error option)
     \<Rightarrow> KubeOneCluster \<Rightarrow> DynamicWorkerConfig list \<Rightarrow> 'c
     \<Rightarrow> 'c \<times> (panic + error option)" where
  "applyMachineDeployments js createOrUpdate cluster [] c = (c, Inr None)"
| "applyMachineDeployments js createOrUpdate cluster (workerset # rest) c =
     (case createMachineDeployment js cluster workerset of
        Inl p \<Rightarrow> (c, Inl p)
      | Inr (Inl err) \<Rightarrow> (c, Inr (Some (ErrorsWrap err ''failed to generate MachineDeployment'')))
      | Inr (Inr machinedeployment) \<Rightarrow>
          (case createOrUpdate c machinedeployment of
             (c', Some err) \<Rightarrow>
               (c', Inr (Some (ErrorsWrap err ''failed to ensure MachineDeployment'')))
           | (c', None) \<Rightarrow> applyMachineDeployments js createOrUpdate cluster rest c'))"

definition CreateMachineDeployments ::
  "('x, 'obj) json_env \<Rightarrow> ('c \<Rightarrow> MachineDeployment \<Rightarrow> 'c \<times> error option)
     \<Rightarrow> 'c State \<Rightarrow> 'c State \<times> (panic + error option)" where
  "CreateMachineDeployments js createOrUpdate s =
     (case DynamicClient s of
        None \<Rightarrow> (s, Inr (Some (ErrorsNew ''kubernetes dynamic client in not initialized'')))
      | Some c \<Rightarrow>
          (case applyMachineDeployments js createOrUpdate (Cluster s)
                  (DynamicWorkers (Cluster s)) c of
             (c', r) \<Rightarrow> (s\<lparr>DynamicClient := Some c'\<rparr>, r)))"

subsection \<open>Sample inputs\<close>

text \<open>
  A stand-in for \<open>encoding/json\<close>: a payload is kept as it is, the AWS payload
  \<open>tags:owned\<close> parses to a tag map in which the cluster tag of the cluster \<open>prod\<close> has
  the value \<open>owned\<close>, any other to a tag map with one other tag. The client state is the
  list of the objects applied so far.
\<close>

definition sampleJSON :: "(unit, string) json_env" where
  "sampleJSON =
     \<lparr>unmarshalAWSSpec = (\<lambda>raw.
        if raw = ''tags:owned''
        then Inr \<lparr>Tags = Some [''kubernetes.io/cluster/prod'' \<mapsto> ''owned''], otherFields = ()\<rparr>
        else Inr \<lparr>Tags = Some [''team'' \<mapsto> ''infra''], otherFields = ()\<rparr>),
      marshalAWSSpec = (\<lambda>spec. Inr ''aws''),
      unmarshalSpec = (\<lambda>raw. Inr raw),
      marshalSpec = (\<lambda>spec. Inr spec),
      marshalProviderSpec = (\<lambda>config name. Inr name),
      CloudProviderName = (\<lambda>provider. if AWS provider \<noteq> None then ''aws'' else ''none'')\<rparr>"

definition sampleCreateOrUpdate ::
  "MachineDeployment list \<Rightarrow> MachineDeployment \<Rightarrow> MachineDeployment list \<times> error option" where
  "sampleCreateOrUpdate c machinedeployment = (c @ [machinedeployment], None)"

definition prodCluster :: KubeOneCluster where
  "prodCluster = awsCluster\<lparr>KubeOneCluster.Name := ''prod''\<rparr>"

definition workerPool :: "string \<Rightarrow> 64 word option \<Rightarrow> NetworkConfig option \<Rightarrow> DynamicWorkerConfig" where
  "workerPool name replicas network =
     \<lparr>DynamicWorkerConfig.Name = name,
      DynamicWorkerConfig.Replicas = replicas,
      DynamicWorkerConfig.Config =
        \<lparr>ProviderSpec.CloudProviderSpec = Some ''payload'',
         ProviderSpec.Annotations = Map.empty,
         MachineAnnotations = Map.empty,
         ProviderSpec.Labels = Map.empty,
         ProviderSpec.Taints = [],
         Network = network\<rparr>\<rparr>"

text \<open>The value of a tag in a payload, a payload that has the cluster tag with another
  value, a static network block, and a run state with a client that has applied nothing.\<close>

definition tagsOf :: "'x AWSSpec \<Rightarrow> string \<Rightarrow> string option" where
  "tagsOf awsSpec k = (case Tags awsSpec of None \<Rightarrow> None | Some t \<Rightarrow> t k)"

definition ownedAWSSpec :: "unit AWSSpec" where
  "ownedAWSSpec = \<lparr>Tags = Some [''kubernetes.io/cluster/prod'' \<mapsto> ''owned''], otherFields = ()\<rparr>"

definition sampleNetwork :: NetworkConfig where
  "sampleNetwork = \<lparr>CIDR = ''192.168.1.10/24'', Gateway = ''192.168.1.1''\<rparr>"

definition sampleState :: "DynamicWorkerConfig list \<Rightarrow> MachineDeployment list State" where
  "sampleState pools = \<lparr>DynamicClient = Some [], Cluster = prodCluster\<lparr>DynamicWorkers := pools\<rparr>\<rparr>"

definition appliedNames :: "MachineDeployment list State \<Rightarrow> string list option" where
  "appliedNames s =
     map_option (map (\<lambda>md. ObjectMeta.Name (MachineDeployment.ObjectMeta md))) (DynamicClient s)"

section \<open>Properties\<close>

subsection \<open>What each defaulting step leaves alone\<close>

lemma SetDefaults_Hosts_frame [simp]:
  "Name (SetDefaults_Hosts obj) = Name obj"
  "DynamicWorkers (SetDefaults_Hosts obj) = DynamicWorkers obj"
  "APIEndpoint (SetDefaults_Hosts obj) = APIEndpoint obj"
  "CloudProvider (SetDefaults_Hosts obj) = CloudProvider obj"
  "Versions (SetDefaults_Hosts obj) = Versions obj"
  "ContainerRuntime (SetDefaults_Hosts obj) = ContainerRuntime obj"
  "ClusterNetwork (SetDefaults_Hosts obj) = ClusterNetwork obj"
  "Proxy (SetDefaults_Hosts obj) = Proxy obj"
  "MachineController (SetDefaults_Hosts obj) = MachineController obj"
  "SystemPackages (SetDefaults_Hosts obj) = SystemPackages obj"
  "RegistryConfiguration (SetDefaults_Hosts obj) = RegistryConfiguration obj"
  "AssetConfiguration (SetDefaults_Hosts obj) = AssetConfiguration obj"
  "Features (SetDefaults_Hosts obj) = Features obj"
  "Addons (SetDefaults_Hosts obj) = Addons obj"
  by (simp_all add: SetDefaults_Hosts_def Let_def split: option.splits prod.splits)

lemma SetDefaults_APIEndpoints_frame [simp]:
  "Name (SetDefaults_APIEndpoints obj) = Name obj"
  "DynamicWorkers (SetDefaults_APIEndpoints obj) = DynamicWorkers obj"
  "ControlPlane (SetDefaults_APIEndpoints obj) = ControlPlane obj"
  "StaticWorkers (SetDefaults_APIEndpoints obj) = StaticWorkers obj"
  "CloudProvider (SetDefaults_APIEndpoints obj) = CloudProvider obj"
  "Versions (SetDefaults_APIEndpoints obj) = Versions obj"
  "ContainerRuntime (SetDefaults_APIEndpoints obj) = ContainerRuntime obj"
  "ClusterNetwork (SetDefaults_APIEndpoints obj) = ClusterNetwork obj"
  "Proxy (SetDefaults_APIEndpoints obj) = Proxy obj"
  "MachineController (SetDefaults_APIEndpoints obj) = MachineController obj"
  "SystemPackages (SetDefaults_APIEndpoints obj) = SystemPackages obj"
  "RegistryConfiguration (SetDefaults_APIEndpoints obj) = RegistryConfiguration obj"
  "AssetConfiguration (SetDefaults_APIEndpoints obj) = AssetConfiguration obj"
  "Features (SetDefaults_APIEndpoints obj) = Features obj"
  "Addons (SetDefaults_APIEndpoints obj) = Addons obj"
  by (simp_all add: SetDefaults_APIEndpoints_def Let_def split: option.splits prod.splits)

lemma SetDefaults_Versions_frame [simp]:
  "Name (SetDefaults_Versions obj) = Name obj"
  "DynamicWorkers (SetDefaults_Versions obj) = DynamicWorkers obj"
  "ControlPlane (SetDefaults_Versions obj) = ControlPlane obj"
  "StaticWorkers (SetDefaults_Versions obj) = StaticWorkers obj"
  "APIEndpoint (SetDefaults_Versions obj) = APIEndpoint obj"
  "CloudProvider (SetDefaults_Versions obj) = CloudProvider obj"
  "ContainerRuntime (SetDefaults_Versions obj) = ContainerRuntime obj"
  "ClusterNetwork (SetDefaults_Versions obj) = ClusterNetwork obj"
  "Proxy (SetDefaults_Versions obj) = Proxy obj"
  "MachineController (SetDefaults_Versions obj) = MachineController obj"
  "SystemPackages (SetDefaults_Versions obj) = SystemPackages obj"
  "RegistryConfiguration (SetDefaults_Versions obj) = RegistryConfiguration obj"
  "AssetConfiguration (SetDefaults_Versions obj) = AssetConfiguration obj"
  "Features (SetDefaults_Versions obj) = Features obj"
  "Addons (SetDefaults_Versions obj) = Addons obj"
  by (simp_all add: SetDefaults_Versions_def Let_def split: option.splits prod.splits)

lemma SetDefaults_ContainerRuntime_frame [simp]:
  "Name (SetDefaults_ContainerRuntime obj) = Name obj"
  "DynamicWorkers (SetDefaults_ContainerRuntime obj) = DynamicWorkers obj"
  "ControlPlane (SetDefaults_ContainerRuntime obj) = ControlPlane obj"
  "StaticWorkers (SetDefaults_ContainerRuntime obj) = StaticWorkers obj"
  "APIEndpoint (SetDefaults_ContainerRuntime obj) = APIEndpoint obj"
  "CloudProvider (SetDefaults_ContainerRuntime obj) = CloudProvider obj"
  "Versions (SetDefaults_ContainerRuntime obj) = Versions obj"
  "ClusterNetwork (SetDefaults_ContainerRuntime obj) = ClusterNetwork obj"
  "Proxy (SetDefaults_ContainerRuntime obj) = Proxy obj"
  "MachineController (SetDefaults_ContainerRuntime obj) = MachineController obj"
  "SystemPackages (SetDefaults_ContainerRuntime obj) = SystemPackages obj"
  "RegistryConfiguration (SetDefaults_ContainerRuntime obj) = RegistryConfiguration obj"
  "AssetConfiguration (SetDefaults_ContainerRuntime obj) = AssetConfiguration obj"
  "Features (SetDefaults_ContainerRuntime obj) = Features obj"
  "Addons (SetDefaults_ContainerRuntime obj) = Addons obj"
  by (simp_all add: SetDefaults_ContainerRuntime_def Let_def split: option.splits prod.splits)

lemma SetDefaults_ClusterNetwork_frame [simp]:
  "Name (SetDefaults_ClusterNetwork obj) = Name obj"
  "DynamicWorkers (SetDefaults_ClusterNetwork obj) = DynamicWorkers obj"
  "ControlPlane (SetDefaults_ClusterNetwork obj) = ControlPlane obj"
  "StaticWorkers (SetDefaults_ClusterNetwork obj) = StaticWorkers obj"
  "APIEndpoint (SetDefaults_ClusterNetwork obj) = APIEndpoint obj"
  "CloudProvider (SetDefaults_ClusterNetwork obj) = CloudProvider obj"
  "Versions (SetDefaults_ClusterNetwork obj) = Versions obj"
  "ContainerRuntime (SetDefaults_ClusterNetwork obj) = ContainerRuntime obj"
  "Proxy (SetDefaults_ClusterNetwork obj) = Proxy obj"
  "MachineController (SetDefaults_ClusterNetwork obj) = MachineController obj"
  "SystemPackages (SetDefaults_ClusterNetwork obj) = SystemPackages obj"
  "RegistryConfiguration (SetDefaults_ClusterNetwork obj) = RegistryConfiguration obj"
  "AssetConfiguration (SetDefaults_ClusterNetwork obj) = AssetConfiguration obj"
  "Features (SetDefaults_ClusterNetwork obj) = Features obj"
  "Addons (SetDefaults_ClusterNetwork obj) = Addons obj"
  by (simp_all add: SetDefaults_ClusterNetwork_def Let_def split: option.splits prod.splits)

lemma SetDefaults_Proxy_frame [simp]:
  "Name (SetDefaults_Proxy obj) = Name obj"
  "DynamicWorkers (SetDefaults_Proxy obj) = DynamicWorkers obj"
  "ControlPlane (SetDefaults_Proxy obj) = ControlPlane obj"
  "StaticWorkers (SetDefaults_Proxy obj) = StaticWorkers obj"
  "APIEndpoint (SetDefaults_Proxy obj) = APIEndpoint obj"
  "CloudProvider (SetDefaults_Proxy obj) = CloudProvider obj"
  "Versions (SetDefaults_Proxy obj) = Versions obj"
  "ContainerRuntime (SetDefaults_Proxy obj) = ContainerRuntime obj"
  "ClusterNetwork (SetDefaults_Proxy obj) = ClusterNetwork obj"
  "MachineController (SetDefaults_Proxy obj) = MachineController obj"
  "SystemPackages (SetDefaults_Proxy obj) = SystemPackages obj"
  "RegistryConfiguration (SetDefaults_Proxy obj) = RegistryConfiguration obj"
  "AssetConfiguration (SetDefaults_Proxy obj) = AssetConfiguration obj"
  "Features (SetDefaults_Proxy obj) = Features obj"
  "Addons (SetDefaults_Proxy obj) = Addons obj"
  by (simp_all add: SetDefaults_Proxy_def Let_def split: option.splits prod.splits)

lemma SetDefaults_MachineController_frame [simp]:
  "Name (SetDefaults_MachineController obj) = Name obj"
  "DynamicWorkers (SetDefaults_MachineController obj) = DynamicWorkers obj"
  "ControlPlane (SetDefaults_MachineController obj) = ControlPlane obj"
  "StaticWorkers (SetDefaults_MachineController obj) = StaticWorkers obj"
  "APIEndpoint (SetDefaults_MachineController obj) = APIEndpoint obj"
  "CloudProvider (SetDefaults_MachineController obj) = CloudProvider obj"
  "Versions (SetDefaults_MachineController obj) = Versions obj"
  "ContainerRuntime (SetDefaults_MachineController obj) = ContainerRuntime obj"
  "ClusterNetwork (SetDefaults_MachineController obj) = ClusterNetwork obj"
  "Proxy (SetDefaults_MachineController obj) = Proxy obj"
  "SystemPackages (SetDefaults_MachineController obj) = SystemPackages obj"
  "RegistryConfiguration (SetDefaults_MachineController obj) = RegistryConfiguration obj"
  "AssetConfiguration (SetDefaults_MachineController obj) = AssetConfiguration obj"
  "Features (SetDefaults_MachineController obj) = Features obj"
  "Addons (SetDefaults_MachineController obj) = Addons obj"
  by (simp_all add: SetDefaults_MachineController_def Let_def split: option.splits prod.splits)

lemma SetDefaults_SystemPackages_frame [simp]:
  "Name (SetDefaults_SystemPackages obj) = Name obj"
  "DynamicWorkers (SetDefaults_SystemPackages obj) = DynamicWorkers obj"
  "ControlPlane (SetDefaults_SystemPackages obj) = ControlPlane obj"
  "StaticWorkers (SetDefaults_SystemPackages obj) = StaticWorkers obj"
  "APIEndpoint (SetDefaults_SystemPackages obj) = APIEndpoint obj"
  "CloudProvider (SetDefaults_SystemPackages obj) = CloudProvider obj"
  "Versions (SetDefaults_SystemPackages obj) = Versions obj"
  "ContainerRuntime (SetDefaults_SystemPackages obj) = ContainerRuntime obj"
  "ClusterNetwork (SetDefaults_SystemPackages obj) = ClusterNetwork obj"
  "Proxy (SetDefaults_SystemPackages obj) = Proxy obj"
  "MachineController (SetDefaults_SystemPackages obj) = MachineController obj"
  "RegistryConfiguration (SetDefaults_SystemPackages obj) = RegistryConfiguration obj"
  "AssetConfiguration (SetDefaults_SystemPackages obj) = AssetConfiguration obj"
  "Features (SetDefaults_SystemPackages obj) = Features obj"
  "Addons (SetDefaults_SystemPackages obj) = Addons obj"
  by (simp_all add: SetDefaults_SystemPackages_def Let_def split: option.splits prod.splits)

lemma SetDefaults_AssetConfiguration_frame [simp]:
  "Name (SetDefaults_AssetConfiguration obj) = Name obj"
  "DynamicWorkers (SetDefaults_AssetConfiguration obj) = DynamicWorkers obj"
  "ControlPlane (SetDefaults_AssetConfiguration obj) = ControlPlane obj"
  "StaticWorkers (SetDefaults_AssetConfiguration obj) = StaticWorkers obj"
  "APIEndpoint (SetDefaults_AssetConfiguration obj) = APIEndpoint obj"
  "CloudProvider (SetDefaults_AssetConfiguration obj) = CloudProvider obj"
  "Versions (SetDefaults_AssetConfiguration obj) = Versions obj"
  "ContainerRuntime (SetDefaults_AssetConfiguration obj) = ContainerRuntime obj"
  "ClusterNetwork (SetDefaults_AssetConfiguration obj) = ClusterNetwork obj"
  "Proxy (SetDefaults_AssetConfiguration obj) = Proxy obj"
  "MachineController (SetDefaults_AssetConfiguration obj) = MachineController obj"
  "SystemPackages (SetDefaults_AssetConfiguration obj) = SystemPackages obj"
  "RegistryConfiguration (SetDefaults_AssetConfiguration obj) = RegistryConfiguration obj"
  "Features (SetDefaults_AssetConfiguration obj) = Features obj"
  "Addons (SetDefaults_AssetConfiguration obj) = Addons obj"
  by (simp_all add: SetDefaults_AssetConfiguration_def Let_def split: option.splits prod.splits)

lemma SetDefaults_Features_frame [simp]:
  "Name (SetDefaults_Features obj) = Name obj"
  "DynamicWorkers (SetDefaults_Features obj) = DynamicWorkers obj"
  "ControlPlane (SetDefaults_Features obj) = ControlPlane obj"
  "StaticWorkers (SetDefaults_Features obj) = StaticWorkers obj"
  "APIEndpoint (SetDefaults_Features obj) = APIEndpoint obj"
  "CloudProvider (SetDefaults_Features obj) = CloudProvider obj"
  "Versions (SetDefaults_Features obj) = Versions obj"
  "ContainerRuntime (SetDefaults_Features obj) = ContainerRuntime obj"
  "ClusterNetwork (SetDefaults_Features obj) = ClusterNetwork obj"
  "Proxy (SetDefaults_Features obj) = Proxy obj"
  "MachineController (SetDefaults_Features obj) = MachineController obj"
  "SystemPackages (SetDefaults_Features obj) = SystemPackages obj"
  "RegistryConfiguration (SetDefaults_Features obj) = RegistryConfiguration obj"
  "AssetConfiguration (SetDefaults_Features obj) = AssetConfiguration obj"
  "Addons (SetDefaults_Features obj) = Addons obj"
  by (simp_all add: SetDefaults_Features_def Let_def split: option.splits prod.splits)

lemma SetDefaults_Addons_frame [simp]:
  "Name (SetDefaults_Addons obj) = Name obj"
  "DynamicWorkers (SetDefaults_Addons obj) = DynamicWorkers obj"
  "ControlPlane (SetDefaults_Addons obj) = ControlPlane obj"
  "StaticWorkers (SetDefaults_Addons obj) = StaticWorkers obj"
  "APIEndpoint (SetDefaults_Addons obj) = APIEndpoint obj"
  "CloudProvider (SetDefaults_Addons obj) = CloudProvider obj"
  "Versions (SetDefaults_Addons obj) = Versions obj"
  "ContainerRuntime (SetDefaults_Addons obj) = ContainerRuntime obj"
  "ClusterNetwork (SetDefaults_Addons obj) = ClusterNetwork obj"
  "Proxy (SetDefaults_Addons obj) = Proxy obj"
  "MachineController (SetDefaults_Addons obj) = MachineController obj"
  "SystemPackages (SetDefaults_Addons obj) = SystemPackages obj"
  "RegistryConfiguration (SetDefaults_Addons obj) = RegistryConfiguration obj"
  "AssetConfiguration (SetDefaults_Addons obj) = AssetConfiguration obj"
  "Features (SetDefaults_Addons obj) = Features obj"
  by (simp_all add: SetDefaults_Addons_def Let_def split: option.splits prod.splits)

subsection \<open>The two host loops\<close>


lemma defaultHostConfig_ID: "ID (defaultHostConfig h) = ID h"
  by (simp add: defaultHostConfig_def Let_def)

lemma defaultHostConfig_IsLeader: "IsLeader (defaultHostConfig h) = IsLeader h"
  by (simp add: defaultHostConfig_def Let_def)

lemma controlPlaneHostStep_ID: "ID (fst (controlPlaneHostStep idx h sdl)) = int idx"
  by (simp add: controlPlaneHostStep_def Let_def defaultHostConfig_ID)

lemma controlPlaneHostStep_IsLeader:
  "IsLeader (fst (controlPlaneHostStep idx h sdl)) = IsLeader h"
  by (simp add: controlPlaneHostStep_def Let_def defaultHostConfig_IsLeader)

lemma controlPlaneHostStep_snd:
  "snd (controlPlaneHostStep idx h sdl) = (sdl \<and> \<not> IsLeader h)"
  by (auto simp add: controlPlaneHostStep_def Let_def)

lemma controlPlaneHostsLoop_Cons:
  "controlPlaneHostsLoop idx (h # hs) sdl =
     (fst (controlPlaneHostStep idx h sdl)
        # fst (controlPlaneHostsLoop (Suc idx) hs (snd (controlPlaneHostStep idx h sdl))),
      snd (controlPlaneHostsLoop (Suc idx) hs (snd (controlPlaneHostStep idx h sdl))))"
  by (simp split: prod.splits)

lemma controlPlaneHostsLoop_length:
  "length (fst (controlPlaneHostsLoop idx hs sdl)) = length hs"
  by (induction hs arbitrary: idx sdl) (simp_all add: controlPlaneHostsLoop_Cons del: controlPlaneHostsLoop.simps(2))

lemma controlPlaneHostsLoop_ID:
  "map ID (fst (controlPlaneHostsLoop idx hs sdl)) = map int [idx ..< idx + length hs]"
proof (induction hs arbitrary: idx sdl)
  case Nil
  show ?case by simp
next
  case (Cons h hs)
  have "map ID (fst (controlPlaneHostsLoop (Suc idx) hs (snd (controlPlaneHostStep idx h sdl))))
          = map int [Suc idx ..< Suc idx + length hs]"
    by (rule Cons.IH)
  moreover have "[idx ..< idx + length (h # hs)] = idx # [Suc idx ..< Suc idx + length hs]"
    by (simp add: upt_rec)
  ultimately show ?case
    by (simp add: controlPlaneHostsLoop_Cons controlPlaneHostStep_ID
          del: controlPlaneHostsLoop.simps(2) upt_Suc)
qed

lemma controlPlaneHostsLoop_IsLeader:
  "map IsLeader (fst (controlPlaneHostsLoop idx hs sdl)) = map IsLeader hs"
proof (induction hs arbitrary: idx sdl)
  case Nil
  show ?case by simp
next
  case (Cons h hs)
  show ?case
    using Cons.IH [of "Suc idx" "snd (controlPlaneHostStep idx h sdl)"]
    by (simp add: controlPlaneHostsLoop_Cons controlPlaneHostStep_IsLeader
          del: controlPlaneHostsLoop.simps(2))
qed

lemma controlPlaneHostsLoop_snd:
  "snd (controlPlaneHostsLoop idx hs sdl) = (sdl \<and> list_all (\<lambda>h. \<not> IsLeader h) hs)"
proof (induction hs arbitrary: idx sdl)
  case Nil
  show ?case by simp
next
  case (Cons h hs)
  show ?case
    using Cons.IH [of "Suc idx" "snd (controlPlaneHostStep idx h sdl)"]
    by (auto simp add: controlPlaneHostsLoop_Cons controlPlaneHostStep_snd
          simp del: controlPlaneHostsLoop.simps(2))
qed

lemma staticWorkerHostStep_ID: "ID (staticWorkerHostStep ncp idx h) = int idx + int ncp"
  by (simp add: staticWorkerHostStep_def Let_def defaultHostConfig_ID)

lemma staticWorkerHostStep_IsLeader: "IsLeader (staticWorkerHostStep ncp idx h) = IsLeader h"
  by (simp add: staticWorkerHostStep_def Let_def defaultHostConfig_IsLeader)

lemma staticWorkerHostsLoop_length:
  "length (staticWorkerHostsLoop ncp idx hs) = length hs"
  by (induction hs arbitrary: idx) simp_all

lemma staticWorkerHostsLoop_ID:
  "map ID (staticWorkerHostsLoop ncp idx hs) = map int [ncp + idx ..< ncp + idx + length hs]"
proof (induction hs arbitrary: idx)
  case Nil
  show ?case by simp
next
  case (Cons h hs)
  have "[ncp + idx ..< ncp + idx + length (h # hs)]
          = (ncp + idx) # [ncp + Suc idx ..< ncp + Suc idx + length hs]"
    by (simp add: upt_rec)
  then show ?case
    using Cons.IH [of "Suc idx"] by (simp add: staticWorkerHostStep_ID del: upt_Suc)
qed

lemma staticWorkerHostsLoop_IsLeader:
  "map IsLeader (staticWorkerHostsLoop ncp idx hs) = map IsLeader hs"
  by (induction hs arbitrary: idx) (simp_all add: staticWorkerHostStep_IsLeader)


subsection \<open>The host defaulting as a whole\<close>


lemma SetDefaults_Hosts_ControlPlane:
  assumes "ControlPlaneConfig.Hosts (ControlPlane obj) \<noteq> []"
  shows "ControlPlaneConfig.Hosts (ControlPlane (SetDefaults_Hosts obj)) =
           (let cps = fst (controlPlaneHostsLoop 0 (ControlPlaneConfig.Hosts (ControlPlane obj)) True)
            in if list_all (\<lambda>h. \<not> IsLeader h) (ControlPlaneConfig.Hosts (ControlPlane obj))
               then cps[0 := (cps ! 0)\<lparr>IsLeader := True\<rparr>] else cps)"
  using assms
  by (simp add: SetDefaults_Hosts_def Let_def case_prod_beta controlPlaneHostsLoop_snd)

lemma SetDefaults_Hosts_StaticWorkers:
  assumes "ControlPlaneConfig.Hosts (ControlPlane obj) \<noteq> []"
  shows "StaticWorkersConfig.Hosts (StaticWorkers (SetDefaults_Hosts obj)) =
           staticWorkerHostsLoop (length (ControlPlaneConfig.Hosts (ControlPlane obj))) 0
             (StaticWorkersConfig.Hosts (StaticWorkers obj))"
  using assms
  by (simp add: SetDefaults_Hosts_def Let_def case_prod_beta controlPlaneHostsLoop_length)

lemma SetDefaults_Hosts_no_control_plane:
  "ControlPlaneConfig.Hosts (ControlPlane obj) = [] \<Longrightarrow> SetDefaults_Hosts obj = obj"
  by (simp add: SetDefaults_Hosts_def)

lemma SetDefaults_KubeOneCluster_ControlPlane:
  "ControlPlane (SetDefaults_KubeOneCluster obj) = ControlPlane (SetDefaults_Hosts obj)"
  by (simp add: SetDefaults_KubeOneCluster_def)

lemma SetDefaults_KubeOneCluster_StaticWorkers:
  "StaticWorkers (SetDefaults_KubeOneCluster obj) = StaticWorkers (SetDefaults_Hosts obj)"
  by (simp add: SetDefaults_KubeOneCluster_def)

lemma map_ID_leader_update:
  "map ID (cps[0 := (cps ! 0)\<lparr>IsLeader := True\<rparr>]) = map ID cps"
  by (cases cps) simp_all

lemma map_IsLeader_leader_update:
  "cps \<noteq> [] \<Longrightarrow> map IsLeader (cps[0 := (cps ! 0)\<lparr>IsLeader := True\<rparr>]) = (map IsLeader cps)[0 := True]"
  by (cases cps) simp_all

subsection \<open>Host IDs\<close>

text \<open>
  Claim C3, as stated: for every cluster specification, after normalization the host IDs
  of all hosts, control-plane hosts first and static workers after them, are the
  contiguous sequence 0, 1, 2, ...

  \<open>SetDefaults_Hosts\<close> returns at once when there is no control-plane host, so the
  static workers keep the IDs they came with: two static workers and no control-plane
  host end with the IDs 0 and 0.
\<close>

theorem host_ids_not_contiguous_without_control_plane:
  "allHostIDs (SetDefaults_KubeOneCluster (clusterWithHosts [] [zeroHostConfig, zeroHostConfig]))
     \<noteq> map int [0 ..< 2]"
  by (simp add: SetDefaults_KubeOneCluster_ControlPlane SetDefaults_KubeOneCluster_StaticWorkers
        SetDefaults_Hosts_no_control_plane allHostIDs_def clusterWithHosts_def
        zeroKubeOneCluster_def zeroHostConfig_def upt_rec)

text \<open>
  Claim C3, amended: for every cluster specification with at least one control-plane
  host, after normalization the host IDs of all hosts form the contiguous sequence
  starting at 0, the control-plane hosts numbered first (0 up to their number) and the
  static workers continuing the sequence.
\<close>

theorem host_ids_contiguous:
  assumes "ControlPlaneConfig.Hosts (ControlPlane obj) \<noteq> []"
  shows "allHostIDs (SetDefaults_KubeOneCluster obj) =
           map int [0 ..< length (ControlPlaneConfig.Hosts (ControlPlane obj))
                          + length (StaticWorkersConfig.Hosts (StaticWorkers obj))]
         \<and> map ID (ControlPlaneConfig.Hosts (ControlPlane (SetDefaults_KubeOneCluster obj))) =
           map int [0 ..< length (ControlPlaneConfig.Hosts (ControlPlane obj))]
         \<and> map ID (StaticWorkersConfig.Hosts (StaticWorkers (SetDefaults_KubeOneCluster obj))) =
           map int [length (ControlPlaneConfig.Hosts (ControlPlane obj)) ..<
                    length (ControlPlaneConfig.Hosts (ControlPlane obj))
                      + length (StaticWorkersConfig.Hosts (StaticWorkers obj))]"
proof -
  let ?cp = "ControlPlaneConfig.Hosts (ControlPlane obj)"
  let ?sw = "StaticWorkersConfig.Hosts (StaticWorkers obj)"
  have cp: "map ID (ControlPlaneConfig.Hosts (ControlPlane (SetDefaults_KubeOneCluster obj)))
              = map int [0 ..< length ?cp]"
    using controlPlaneHostsLoop_ID [of 0 ?cp True]
    by (simp add: SetDefaults_KubeOneCluster_ControlPlane SetDefaults_Hosts_ControlPlane [OF assms]
          Let_def map_ID_leader_update)
  have sw: "map ID (StaticWorkersConfig.Hosts (StaticWorkers (SetDefaults_KubeOneCluster obj)))
              = map int [length ?cp ..< length ?cp + length ?sw]"
    using staticWorkerHostsLoop_ID [of "length ?cp" 0 ?sw]
    by (simp add: SetDefaults_KubeOneCluster_StaticWorkers SetDefaults_Hosts_StaticWorkers [OF assms])
  have "[0 ..< length ?cp + length ?sw] = [0 ..< length ?cp] @ [length ?cp ..< length ?cp + length ?sw]"
    by (metis le_add1 upt_add_eq_append add_0)
  with cp sw show ?thesis
    by (simp add: allHostIDs_def)
qed

theorem host_ids_contiguous_witness:
  "ControlPlaneConfig.Hosts (ControlPlane
      (clusterWithHosts [zeroHostConfig, zeroHostConfig]
         [zeroHostConfig, zeroHostConfig, zeroHostConfig])) \<noteq> []
   \<and> allHostIDs (SetDefaults_KubeOneCluster
      (clusterWithHosts [zeroHostConfig, zeroHostConfig]
         [zeroHostConfig, zeroHostConfig, zeroHostConfig]))
     = [0, 1, 2, 3, 4]"
proof -
  have ne: "ControlPlaneConfig.Hosts (ControlPlane
      (clusterWithHosts [zeroHostConfig, zeroHostConfig]
         [zeroHostConfig, zeroHostConfig, zeroHostConfig])) \<noteq> []"
    by (simp add: clusterWithHosts_def)
  have "[0 ..< 5] = [0, 1, 2, 3, 4::nat]"
    by (simp add: upt_rec)
  then show ?thesis
    using ne host_ids_contiguous [OF ne]
    by (simp add: clusterWithHosts_def)
qed

subsection \<open>Leadership\<close>


lemma controlPlaneLeaders_SetDefaults:
  assumes "ControlPlaneConfig.Hosts (ControlPlane obj) \<noteq> []"
  shows "controlPlaneLeaders (SetDefaults_KubeOneCluster obj) =
           (if list_all (\<lambda>h. \<not> IsLeader h) (ControlPlaneConfig.Hosts (ControlPlane obj))
            then (controlPlaneLeaders obj)[0 := True] else controlPlaneLeaders obj)"
proof -
  have "fst (controlPlaneHostsLoop 0 (ControlPlaneConfig.Hosts (ControlPlane obj)) True) \<noteq> []"
    using assms controlPlaneHostsLoop_length [of 0 "ControlPlaneConfig.Hosts (ControlPlane obj)" True]
    by (metis length_0_conv)
  then show ?thesis
    by (simp add: controlPlaneLeaders_def SetDefaults_KubeOneCluster_ControlPlane
          SetDefaults_Hosts_ControlPlane [OF assms] Let_def map_IsLeader_leader_update
          controlPlaneHostsLoop_IsLeader)
qed

lemma no_leader_flags:
  "list_all (\<lambda>h. \<not> IsLeader h) hs \<Longrightarrow> map IsLeader hs = replicate (length hs) False"
  by (induction hs) simp_all

lemma filter_IsLeader_map:
  "length (filter IsLeader hs) = length (filter (\<lambda>b. b) (map IsLeader hs))"
  by (induction hs) simp_all

lemma some_leader_flag:
  "\<not> list_all (\<lambda>h. \<not> IsLeader h) hs \<Longrightarrow> 1 \<le> length (filter IsLeader hs)"
  by (induction hs) auto

text \<open>
  Claim C2, as stated: for every cluster specification whose control-plane host list has
  at least one entry, after normalization exactly one host is marked leader.

  The loop only notes whether some control-plane host carries the flag and never clears
  one, so two hosts that both carry it are both leaders afterwards.
\<close>

theorem two_flagged_hosts_stay_leaders:
  "length (filter (\<lambda>b. b) (controlPlaneLeaders (SetDefaults_KubeOneCluster
      (clusterWithHosts [zeroHostConfig\<lparr>IsLeader := True\<rparr>, zeroHostConfig\<lparr>IsLeader := True\<rparr>] []))))
     \<noteq> 1"
proof -
  have ne: "ControlPlaneConfig.Hosts (ControlPlane
      (clusterWithHosts [zeroHostConfig\<lparr>IsLeader := True\<rparr>, zeroHostConfig\<lparr>IsLeader := True\<rparr>] [])) \<noteq> []"
    by (simp add: clusterWithHosts_def)
  show ?thesis
    by (simp add: controlPlaneLeaders_SetDefaults [OF ne])
       (simp add: clusterWithHosts_def controlPlaneLeaders_def zeroHostConfig_def)
qed

text \<open>
  Claim C2, amended: for every cluster specification whose control-plane host list has
  at least one entry and in which at most one control-plane host carries the leader
  flag, after normalization exactly one control-plane host is marked leader: if none
  carried the flag, the first control-plane host and no other is leader; if exactly one
  carried it, the flags of all control-plane hosts are as before, so that host keeps it
  and no other host is promoted.
\<close>

theorem exactly_one_leader:
  assumes "ControlPlaneConfig.Hosts (ControlPlane obj) \<noteq> []"
    and "length (filter IsLeader (ControlPlaneConfig.Hosts (ControlPlane obj))) \<le> 1"
  shows "length (filter (\<lambda>b. b) (controlPlaneLeaders (SetDefaults_KubeOneCluster obj))) = 1
    \<and> (if length (filter IsLeader (ControlPlaneConfig.Hosts (ControlPlane obj))) = 0
       then controlPlaneLeaders (SetDefaults_KubeOneCluster obj) =
              True # replicate (length (ControlPlaneConfig.Hosts (ControlPlane obj)) - 1) False
       else controlPlaneLeaders (SetDefaults_KubeOneCluster obj) = controlPlaneLeaders obj)"
proof (cases "list_all (\<lambda>h. \<not> IsLeader h) (ControlPlaneConfig.Hosts (ControlPlane obj))")
  case True
  let ?cp = "ControlPlaneConfig.Hosts (ControlPlane obj)"
  obtain h hs where cp: "?cp = h # hs"
    using assms(1) by (cases ?cp) auto
  have flags: "controlPlaneLeaders obj = replicate (length ?cp) False"
    using no_leader_flags [OF True] by (simp add: controlPlaneLeaders_def)
  have none: "length (filter IsLeader ?cp) = 0"
    using flags by (simp add: filter_IsLeader_map controlPlaneLeaders_def)
  have "controlPlaneLeaders (SetDefaults_KubeOneCluster obj) = True # replicate (length ?cp - 1) False"
    using True flags cp by (simp add: controlPlaneLeaders_SetDefaults [OF assms(1)])
  then show ?thesis
    using none by simp
next
  case False
  have "length (filter IsLeader (ControlPlaneConfig.Hosts (ControlPlane obj))) = 1"
    using some_leader_flag [OF False] assms(2) by simp
  moreover have same: "controlPlaneLeaders (SetDefaults_KubeOneCluster obj) = controlPlaneLeaders obj"
    using False by (simp add: controlPlaneLeaders_SetDefaults [OF assms(1)])
  moreover have "length (filter (\<lambda>b. b) (controlPlaneLeaders obj))
                   = length (filter IsLeader (ControlPlaneConfig.Hosts (ControlPlane obj)))"
    by (simp only: controlPlaneLeaders_def filter_IsLeader_map)
  ultimately show ?thesis
    by simp
qed

theorem exactly_one_leader_witness:
  "controlPlaneLeaders (SetDefaults_KubeOneCluster
      (clusterWithHosts [zeroHostConfig, zeroHostConfig, zeroHostConfig] []))
     = [True, False, False]
   \<and> controlPlaneLeaders (SetDefaults_KubeOneCluster
      (clusterWithHosts [zeroHostConfig, zeroHostConfig\<lparr>IsLeader := True\<rparr>, zeroHostConfig] []))
     = [False, True, False]"
proof -
  let ?c = "clusterWithHosts [zeroHostConfig, zeroHostConfig, zeroHostConfig] []"
  let ?d = "clusterWithHosts [zeroHostConfig, zeroHostConfig\<lparr>IsLeader := True\<rparr>, zeroHostConfig] []"
  have c1: "ControlPlaneConfig.Hosts (ControlPlane ?c) \<noteq> []"
    and c2: "length (filter IsLeader (ControlPlaneConfig.Hosts (ControlPlane ?c))) \<le> 1"
    by (simp_all add: clusterWithHosts_def zeroHostConfig_def)
  have d1: "ControlPlaneConfig.Hosts (ControlPlane ?d) \<noteq> []"
    and d2: "length (filter IsLeader (ControlPlaneConfig.Hosts (ControlPlane ?d))) \<le> 1"
    by (simp_all add: clusterWithHosts_def zeroHostConfig_def)
  show ?thesis
    using exactly_one_leader [OF c1 c2] exactly_one_leader [OF d1 d2]
    by (simp add: clusterWithHosts_def zeroHostConfig_def controlPlaneLeaders_def)
qed

subsection \<open>The default MTU of Canal\<close>

lemma SetDefaults_KubeOneCluster_ClusterNetwork:
  "ClusterNetwork (SetDefaults_KubeOneCluster obj) = ClusterNetwork (SetDefaults_ClusterNetwork obj)"
  by (simp add: SetDefaults_KubeOneCluster_def)
     (simp add: SetDefaults_ClusterNetwork_def Let_def)

lemma defaultCanal_MTU: "MTU (defaultCanal cp) = 1450"
  by (simp add: defaultCanal_def defaulti_def DefaultCanalMTU_def Let_def)

text \<open>
  Claim C6: with the CNI left unset, an AWS cluster gets the Canal MTU 8951 and a
  cluster without a recognized provider gets 1450.

  The code starts \<open>defaultCanal\<close> with \<open>MTU: DefaultCanalMTU\<close> and then assigns
  \<open>defaulti(defaultCanal.MTU, 8951)\<close>; \<open>defaulti\<close> returns its first argument when
  that is not 0, so the AWS value is never taken: the MTU of an AWS cluster is 1450.
\<close>

theorem aws_default_mtu_is_1450:
  "CNI (ClusterNetwork (SetDefaults_KubeOneCluster awsCluster))
     = Some \<lparr>Canal = Some \<lparr>MTU = 1450\<rparr>, Cilium = None\<rparr>"
  by (simp add: SetDefaults_KubeOneCluster_ClusterNetwork)
     (simp add: SetDefaults_ClusterNetwork_def awsCluster_def zeroKubeOneCluster_def Let_def
        defaultCanal_def defaulti_def DefaultCanalMTU_def)

subsection \<open>Version and container runtime\<close>

lemma SetDefaults_KubeOneCluster_Versions:
  "Versions (SetDefaults_KubeOneCluster obj) = Versions (SetDefaults_Versions obj)"
  by (simp add: SetDefaults_KubeOneCluster_def)
     (simp add: SetDefaults_Versions_def)

lemma SetDefaults_KubeOneCluster_ContainerRuntime:
  "ContainerRuntime (SetDefaults_KubeOneCluster obj) =
     ContainerRuntime (SetDefaults_ContainerRuntime (SetDefaults_Versions obj))"
  by (simp add: SetDefaults_KubeOneCluster_def)
     (simp add: SetDefaults_ContainerRuntime_def SetDefaults_Versions_def split: option.splits)

lemmas semver_defs = semver_NewVersion_def strings_TrimPrefix_def dotNumber_def versionSuffix_def
  parseUint64_def numberOrZero_def isDigit_def validIdentifiers_def validPrerelease_def
  isIdentChar_def

lemma semver_1_23_0:
  "semver_NewVersion ''1.23.0'' = Some \<lparr>major = 1, minor = 23, patch = 0, pre = [], metadata = []\<rparr>"
  by (simp add: semver_defs)

lemma semver_1_20_5:
  "semver_NewVersion ''1.20.5'' = Some \<lparr>major = 1, minor = 20, patch = 5, pre = [], metadata = []\<rparr>"
  by (simp add: semver_defs)

text \<open>
  Claim C7: a cluster that asks for Kubernetes \<open>v1.23.0\<close> and chooses no container
  runtime is normalized to version \<open>1.23.0\<close> with containerd selected; with
  \<open>v1.20.5\<close> the version becomes \<open>1.20.5\<close> and the container runtime stays unset.
\<close>

theorem container_runtime_by_version:
  assumes "Docker (ContainerRuntime obj) = None" and "Containerd (ContainerRuntime obj) = None"
  shows "(VersionConfig.Kubernetes (Versions obj) = ''v1.23.0'' \<longrightarrow>
            VersionConfig.Kubernetes (Versions (SetDefaults_KubeOneCluster obj)) = ''1.23.0''
            \<and> ContainerRuntime (SetDefaults_KubeOneCluster obj) =
                \<lparr>Docker = None, Containerd = Some ContainerRuntimeContainerd\<rparr>)
       \<and> (VersionConfig.Kubernetes (Versions obj) = ''v1.20.5'' \<longrightarrow>
            VersionConfig.Kubernetes (Versions (SetDefaults_KubeOneCluster obj)) = ''1.20.5''
            \<and> ContainerRuntime (SetDefaults_KubeOneCluster obj) =
                \<lparr>Docker = None, Containerd = None\<rparr>)"
proof -
  have cr: "ContainerRuntime obj = \<lparr>Docker = None, Containerd = None\<rparr>"
    using assms by (cases "ContainerRuntime obj") simp
  show ?thesis
    using cr
    by (simp add: SetDefaults_KubeOneCluster_Versions SetDefaults_KubeOneCluster_ContainerRuntime)
       (simp add: SetDefaults_Versions_def SetDefaults_ContainerRuntime_def
          strings_TrimPrefix_def semver_1_23_0 semver_1_20_5 gteKube122Condition_Check_def)
qed

theorem container_runtime_by_version_witness:
  "VersionConfig.Kubernetes (Versions (SetDefaults_KubeOneCluster (clusterWithVersion ''v1.23.0''))) = ''1.23.0''
   \<and> ContainerRuntime (SetDefaults_KubeOneCluster (clusterWithVersion ''v1.23.0'')) =
        \<lparr>Docker = None, Containerd = Some ContainerRuntimeContainerd\<rparr>
   \<and> VersionConfig.Kubernetes (Versions (SetDefaults_KubeOneCluster (clusterWithVersion ''v1.20.5''))) = ''1.20.5''
   \<and> ContainerRuntime (SetDefaults_KubeOneCluster (clusterWithVersion ''v1.20.5'')) =
        \<lparr>Docker = None, Containerd = None\<rparr>"
proof -
  have a: "Docker (ContainerRuntime (clusterWithVersion v)) = None"
    and b: "Containerd (ContainerRuntime (clusterWithVersion v)) = None" for v
    by (simp_all add: clusterWithVersion_def zeroKubeOneCluster_def)
  show ?thesis
    using container_runtime_by_version [OF a b, of "''v1.23.0''"]
      container_runtime_by_version [OF a b, of "''v1.20.5''"]
    by (simp add: clusterWithVersion_def)
qed


subsection \<open>Defaulting the hosts twice\<close>



lemma defaultHostConfig_fields:
  "PublicAddress (defaultHostConfig h) =
     (if PublicAddress h = [] then PrivateAddress h else PublicAddress h)"
  "PrivateAddress (defaultHostConfig h) =
     (if PrivateAddress h = [] then PublicAddress h else PrivateAddress h)"
  "SSHPrivateKeyFile (defaultHostConfig h) = SSHPrivateKeyFile h"
  "SSHAgentSocket (defaultHostConfig h) =
     (if SSHPrivateKeyFile h = [] then defaults (SSHAgentSocket h) ''env:SSH_AUTH_SOCK''
      else SSHAgentSocket h)"
  "SSHUsername (defaultHostConfig h) = defaults (SSHUsername h) ''root''"
  "SSHPort (defaultHostConfig h) = defaulti (SSHPort h) 22"
  "BastionPort (defaultHostConfig h) = defaulti (BastionPort h) 22"
  "BastionUser (defaultHostConfig h) = defaults (BastionUser h) (defaults (SSHUsername h) ''root'')"
  "Taints (defaultHostConfig h) = Taints h"
  by (simp_all add: defaultHostConfig_def Let_def)

lemma defaults_idem: "defaults (defaults a b) b = defaults a b"
  by (simp add: defaults_def)

lemma defaulti_idem: "defaulti (defaulti a b) b = defaulti a b"
  by (simp add: defaulti_def)

lemma defaultHostConfig_idem:
  "defaultHostConfig (defaultHostConfig h) = defaultHostConfig h"
  by (rule HostConfig.equality)
     (simp_all add: defaultHostConfig_fields defaultHostConfig_ID defaultHostConfig_IsLeader
        defaults_idem defaulti_idem)

lemma defaultHostConfig_update:
  "defaultHostConfig (h\<lparr>ID := i\<rparr>) = (defaultHostConfig h)\<lparr>ID := i\<rparr>"
  "defaultHostConfig (h\<lparr>IsLeader := b\<rparr>) = (defaultHostConfig h)\<lparr>IsLeader := b\<rparr>"
  "defaultHostConfig (h\<lparr>Taints := t\<rparr>) = (defaultHostConfig h)\<lparr>Taints := t\<rparr>"
  by (rule HostConfig.equality;
      simp add: defaultHostConfig_fields defaultHostConfig_ID defaultHostConfig_IsLeader)+

lemma controlPlaneHostStep_fst_fix:
  "fst (controlPlaneHostStep idx (fst (controlPlaneHostStep idx h s)) s')
     = fst (controlPlaneHostStep idx h s)"
  by (simp add: controlPlaneHostStep_def Let_def defaultHostConfig_update defaultHostConfig_idem
        defaultHostConfig_fields(9))

lemma controlPlaneHostStep_fst_leader:
  "fst (controlPlaneHostStep idx (h\<lparr>IsLeader := b\<rparr>) s)
     = (fst (controlPlaneHostStep idx h s'))\<lparr>IsLeader := b\<rparr>"
  by (simp add: controlPlaneHostStep_def Let_def defaultHostConfig_update defaultHostConfig_fields(9))

lemma controlPlaneHostsLoop_fst_fix:
  "fst (controlPlaneHostsLoop idx (fst (controlPlaneHostsLoop idx hs s)) s')
     = fst (controlPlaneHostsLoop idx hs s)"
  by (induction hs arbitrary: idx s s')
     (simp_all add: controlPlaneHostsLoop_Cons controlPlaneHostStep_fst_fix
        del: controlPlaneHostsLoop.simps(2))

lemma controlPlaneHostsLoop_fst_fix_leader:
  "fst (controlPlaneHostsLoop idx
         ((fst (controlPlaneHostsLoop idx hs s))
            [0 := (fst (controlPlaneHostsLoop idx hs s) ! 0)\<lparr>IsLeader := True\<rparr>]) s')
     = (fst (controlPlaneHostsLoop idx hs s))
            [0 := (fst (controlPlaneHostsLoop idx hs s) ! 0)\<lparr>IsLeader := True\<rparr>]"
proof (cases hs)
  case Nil
  then show ?thesis by simp
next
  case (Cons h hs')
  show ?thesis
    unfolding Cons
    by (simp add: controlPlaneHostsLoop_Cons controlPlaneHostStep_fst_fix
          controlPlaneHostStep_fst_leader [where s' = s'] controlPlaneHostsLoop_fst_fix
          del: controlPlaneHostsLoop.simps(2))
qed

lemma staticWorkerHostStep_fix:
  "staticWorkerHostStep ncp idx (staticWorkerHostStep ncp idx h) = staticWorkerHostStep ncp idx h"
  by (simp add: staticWorkerHostStep_def Let_def defaultHostConfig_update defaultHostConfig_idem
        defaultHostConfig_fields(9))

lemma staticWorkerHostsLoop_fix:
  "staticWorkerHostsLoop ncp idx (staticWorkerHostsLoop ncp idx hs) = staticWorkerHostsLoop ncp idx hs"
  by (induction hs arbitrary: idx) (simp_all add: staticWorkerHostStep_fix)

lemma leader_after_update:
  "cps \<noteq> [] \<Longrightarrow> \<not> list_all (\<lambda>h. \<not> IsLeader h) (cps[0 := (cps ! 0)\<lparr>IsLeader := True\<rparr>])"
  by (cases cps) simp_all

lemma list_all_not_leader_loop:
  "list_all (\<lambda>h. \<not> IsLeader h) (fst (controlPlaneHostsLoop idx hs s))
     = list_all (\<lambda>h. \<not> IsLeader h) hs"
proof -
  have "list_all (\<lambda>h. \<not> IsLeader h) xs = list_all (\<lambda>b. \<not> b) (map IsLeader xs)"
    for xs :: "HostConfig list"
    by (induction xs) simp_all
  then show ?thesis
    by (simp add: controlPlaneHostsLoop_IsLeader)
qed

lemma SetDefaults_Hosts_idem:
  "SetDefaults_Hosts (SetDefaults_Hosts obj) = SetDefaults_Hosts obj"
proof (cases "ControlPlaneConfig.Hosts (ControlPlane obj) = []")
  case True
  then show ?thesis by (simp add: SetDefaults_Hosts_no_control_plane)
next
  case False
  let ?cp = "ControlPlaneConfig.Hosts (ControlPlane obj)"
  let ?l = "fst (controlPlaneHostsLoop 0 ?cp True)"
  have l: "?l \<noteq> []"
    using False controlPlaneHostsLoop_length [of 0 ?cp True] by (metis length_0_conv)
  show ?thesis
  proof (cases "list_all (\<lambda>h. \<not> IsLeader h) ?cp")
    case True
    show ?thesis
      using False True l leader_after_update [OF l]
      by (simp add: SetDefaults_Hosts_def [of "SetDefaults_Hosts obj"]
            SetDefaults_Hosts_ControlPlane SetDefaults_Hosts_StaticWorkers Let_def case_prod_beta
            controlPlaneHostsLoop_snd controlPlaneHostsLoop_length
            controlPlaneHostsLoop_fst_fix_leader staticWorkerHostsLoop_fix)
  next
    case nl: False
    show ?thesis
      using False nl l
      by (simp add: SetDefaults_Hosts_def [of "SetDefaults_Hosts obj"]
            SetDefaults_Hosts_ControlPlane SetDefaults_Hosts_StaticWorkers Let_def case_prod_beta
            controlPlaneHostsLoop_snd controlPlaneHostsLoop_length list_all_not_leader_loop
            controlPlaneHostsLoop_fst_fix staticWorkerHostsLoop_fix)
  qed
qed



subsection \<open>Running one defaulting step twice\<close>


lemma SetDefaults_APIEndpoints_idem:
  "SetDefaults_APIEndpoints (SetDefaults_APIEndpoints z) = SetDefaults_APIEndpoints z"
  by (simp add: SetDefaults_APIEndpoints_def Let_def defaulti_idem)

lemma strings_TrimPrefix_v_idem:
  "take 2 v \<noteq> ''vv'' \<Longrightarrow>
     strings_TrimPrefix (strings_TrimPrefix v ''v'') ''v'' = strings_TrimPrefix v ''v''"
  by (cases v; cases "tl v") (auto simp add: strings_TrimPrefix_def)

lemma SetDefaults_Versions_idem:
  "take 2 (VersionConfig.Kubernetes (Versions z)) \<noteq> ''vv'' \<Longrightarrow>
     SetDefaults_Versions (SetDefaults_Versions z) = SetDefaults_Versions z"
  by (simp add: SetDefaults_Versions_def strings_TrimPrefix_v_idem)

lemma SetDefaults_ContainerRuntime_idem:
  "SetDefaults_ContainerRuntime (SetDefaults_ContainerRuntime z) = SetDefaults_ContainerRuntime z"
  by (simp add: SetDefaults_ContainerRuntime_def split: option.splits)

lemma SetDefaults_ClusterNetwork_fields:
  "PodSubnet (ClusterNetwork (SetDefaults_ClusterNetwork z)) =
     defaults (PodSubnet (ClusterNetwork z)) DefaultPodSubnet"
  "ServiceSubnet (ClusterNetwork (SetDefaults_ClusterNetwork z)) =
     defaults (ServiceSubnet (ClusterNetwork z)) DefaultServiceSubnet"
  "ServiceDomainName (ClusterNetwork (SetDefaults_ClusterNetwork z)) =
     defaults (ServiceDomainName (ClusterNetwork z)) DefaultServiceDNS"
  "NodePortRange (ClusterNetwork (SetDefaults_ClusterNetwork z)) =
     defaults (NodePortRange (ClusterNetwork z)) DefaultNodePortRange"
  by (simp_all add: SetDefaults_ClusterNetwork_def Let_def)

lemma SetDefaults_ClusterNetwork_CNI:
  "CNI (ClusterNetwork (SetDefaults_ClusterNetwork z)) =
     Some (case CNI (ClusterNetwork z) of
             None \<Rightarrow> \<lparr>Canal = Some (defaultCanal (CloudProvider z)), Cilium = None\<rparr>
           | Some c \<Rightarrow>
               \<lparr>Canal = map_option
                   (\<lambda>canal. if MTU canal = 0
                            then canal\<lparr>MTU := MTU (defaultCanal (CloudProvider z))\<rparr> else canal)
                   (Canal c),
                Cilium = map_option
                   (\<lambda>cilium. if KubeProxyReplacement cilium = []
                             then cilium\<lparr>KubeProxyReplacement := ''disabled''\<rparr> else cilium)
                   (Cilium c)\<rparr>)"
proof (cases "CNI (ClusterNetwork z)")
  case None
  then show ?thesis
    by (simp add: SetDefaults_ClusterNetwork_def Let_def defaultCanal_MTU)
next
  case (Some c)
  then show ?thesis
    by (cases c; cases "Canal c"; cases "Cilium c")
       (simp_all add: SetDefaults_ClusterNetwork_def Let_def)
qed

lemma SetDefaults_ClusterNetwork_more:
  "ClusterNetworkConfig.more (ClusterNetwork (SetDefaults_ClusterNetwork z)) =
     ClusterNetworkConfig.more (ClusterNetwork z)"
  by (simp add: SetDefaults_ClusterNetwork_def Let_def)

lemma SetDefaults_ClusterNetwork_ClusterNetwork_idem:
  "ClusterNetwork (SetDefaults_ClusterNetwork (SetDefaults_ClusterNetwork z))
     = ClusterNetwork (SetDefaults_ClusterNetwork z)"
proof (rule ClusterNetworkConfig.equality)
  show "CNI (ClusterNetwork (SetDefaults_ClusterNetwork (SetDefaults_ClusterNetwork z)))
          = CNI (ClusterNetwork (SetDefaults_ClusterNetwork z))"
  proof (cases "CNI (ClusterNetwork z)")
    case None
    then show ?thesis
      by (simp add: SetDefaults_ClusterNetwork_CNI defaultCanal_MTU)
  next
    case (Some c)
    then show ?thesis
      by (cases "Canal c"; cases "Cilium c")
         (simp_all add: SetDefaults_ClusterNetwork_CNI defaultCanal_MTU)
  qed
qed (simp_all add: SetDefaults_ClusterNetwork_fields SetDefaults_ClusterNetwork_more defaults_idem)

lemma SetDefaults_ClusterNetwork_idem:
  "SetDefaults_ClusterNetwork (SetDefaults_ClusterNetwork z) = SetDefaults_ClusterNetwork z"
  by (rule KubeOneCluster.equality)
     (simp_all add: SetDefaults_ClusterNetwork_ClusterNetwork_idem)

lemma SetDefaults_Proxy_unset:
  "HTTP (Proxy z) = [] \<Longrightarrow> HTTPS (Proxy z) = [] \<Longrightarrow> SetDefaults_Proxy z = z"
  by (simp add: SetDefaults_Proxy_def)

lemma SetDefaults_MachineController_idem:
  "SetDefaults_MachineController (SetDefaults_MachineController z) = SetDefaults_MachineController z"
  by (simp add: SetDefaults_MachineController_def)

lemma SetDefaults_SystemPackages_idem:
  "SetDefaults_SystemPackages (SetDefaults_SystemPackages z) = SetDefaults_SystemPackages z"
  by (simp add: SetDefaults_SystemPackages_def)

lemma SetDefaults_AssetConfiguration_idem:
  "SetDefaults_AssetConfiguration (SetDefaults_AssetConfiguration z) = SetDefaults_AssetConfiguration z"
  by (simp add: SetDefaults_AssetConfiguration_def Let_def defaultImageRepository_def defaults_idem
        split: option.splits)

lemma defaultStaticAuditLogConfig_idem:
  "defaultStaticAuditLogConfig (defaultStaticAuditLogConfig c) = defaultStaticAuditLogConfig c"
  by (simp add: defaultStaticAuditLogConfig_def Let_def defaults_idem defaulti_idem)

lemma defaultOpenIDConnect_fields:
  "ClientID (defaultOpenIDConnect c) = defaults (ClientID c) ''kubernetes''"
  "UsernameClaim (defaultOpenIDConnect c) = defaults (UsernameClaim c) ''sub''"
  "UsernamePrefix (defaultOpenIDConnect c) = defaults (UsernamePrefix c) ''oidc:''"
  "GroupsClaim (defaultOpenIDConnect c) = defaults (GroupsClaim c) ''groups''"
  "GroupsPrefix (defaultOpenIDConnect c) = defaults (GroupsPrefix c) ''oidc:''"
  "SigningAlgs (defaultOpenIDConnect c) = defaults (SigningAlgs c) ''RS256''"
  by (simp_all add: defaultOpenIDConnect_def Let_def)

lemma defaultOpenIDConnect_idem:
  "defaultOpenIDConnect (defaultOpenIDConnect c) = defaultOpenIDConnect c"
  by (rule OpenIDConnectConfig.equality)
     (simp_all add: defaultOpenIDConnect_fields defaults_idem)

lemma SetDefaults_Features_idem:
  "SetDefaults_Features (SetDefaults_Features z) = SetDefaults_Features z"
  by (simp add: SetDefaults_Features_def Let_def defaultStaticAuditLogConfig_idem
        defaultOpenIDConnect_idem split: option.splits)

lemma SetDefaults_Addons_idem:
  "SetDefaults_Addons (SetDefaults_Addons z) = SetDefaults_Addons z"
  by (simp add: SetDefaults_Addons_def defaults_idem split: option.splits)


subsection \<open>Normalizing twice\<close>


text \<open>A step that leaves its own field as it is changes nothing.\<close>

lemma SetDefaults_fixI:
  "ControlPlane (SetDefaults_Hosts z) = ControlPlane z \<Longrightarrow>
     StaticWorkers (SetDefaults_Hosts z) = StaticWorkers z \<Longrightarrow> SetDefaults_Hosts z = z"
  "APIEndpoint (SetDefaults_APIEndpoints z) = APIEndpoint z \<Longrightarrow> SetDefaults_APIEndpoints z = z"
  "Versions (SetDefaults_Versions z) = Versions z \<Longrightarrow> SetDefaults_Versions z = z"
  "ContainerRuntime (SetDefaults_ContainerRuntime z) = ContainerRuntime z \<Longrightarrow>
     SetDefaults_ContainerRuntime z = z"
  "ClusterNetwork (SetDefaults_ClusterNetwork z) = ClusterNetwork z \<Longrightarrow>
     SetDefaults_ClusterNetwork z = z"
  "Proxy (SetDefaults_Proxy z) = Proxy z \<Longrightarrow> SetDefaults_Proxy z = z"
  "MachineController (SetDefaults_MachineController z) = MachineController z \<Longrightarrow>
     SetDefaults_MachineController z = z"
  "SystemPackages (SetDefaults_SystemPackages z) = SystemPackages z \<Longrightarrow>
     SetDefaults_SystemPackages z = z"
  "AssetConfiguration (SetDefaults_AssetConfiguration z) = AssetConfiguration z \<Longrightarrow>
     SetDefaults_AssetConfiguration z = z"
  "Features (SetDefaults_Features z) = Features z \<Longrightarrow> SetDefaults_Features z = z"
  "Addons (SetDefaults_Addons z) = Addons z \<Longrightarrow> SetDefaults_Addons z = z"
  by (rule KubeOneCluster.equality; simp)+

text \<open>What a step writes depends only on the fields it reads.\<close>

lemma SetDefaults_Hosts_cong:
  assumes "ControlPlane z = ControlPlane z'" and "StaticWorkers z = StaticWorkers z'"
  shows "ControlPlane (SetDefaults_Hosts z) = ControlPlane (SetDefaults_Hosts z')"
    and "StaticWorkers (SetDefaults_Hosts z) = StaticWorkers (SetDefaults_Hosts z')"
  using assms by (simp_all add: SetDefaults_Hosts_def Let_def case_prod_beta)

lemma SetDefaults_APIEndpoints_cong:
  "APIEndpoint z = APIEndpoint z' \<Longrightarrow> ControlPlane z = ControlPlane z' \<Longrightarrow>
     APIEndpoint (SetDefaults_APIEndpoints z) = APIEndpoint (SetDefaults_APIEndpoints z')"
  by (simp add: SetDefaults_APIEndpoints_def Let_def)

lemma SetDefaults_Versions_cong:
  "Versions z = Versions z' \<Longrightarrow>
     Versions (SetDefaults_Versions z) = Versions (SetDefaults_Versions z')"
  by (simp add: SetDefaults_Versions_def)

lemma SetDefaults_ContainerRuntime_cong:
  "ContainerRuntime z = ContainerRuntime z' \<Longrightarrow> Versions z = Versions z' \<Longrightarrow>
     ContainerRuntime (SetDefaults_ContainerRuntime z) = ContainerRuntime (SetDefaults_ContainerRuntime z')"
  by (simp add: SetDefaults_ContainerRuntime_def split: option.splits)

lemma SetDefaults_ClusterNetwork_cong:
  "ClusterNetwork z = ClusterNetwork z' \<Longrightarrow> CloudProvider z = CloudProvider z' \<Longrightarrow>
     ClusterNetwork (SetDefaults_ClusterNetwork z) = ClusterNetwork (SetDefaults_ClusterNetwork z')"
  by (simp add: SetDefaults_ClusterNetwork_def Let_def)

lemma SetDefaults_MachineController_cong:
  "MachineController z = MachineController z' \<Longrightarrow>
     MachineController (SetDefaults_MachineController z) =
     MachineController (SetDefaults_MachineController z')"
  by (simp add: SetDefaults_MachineController_def)

lemma SetDefaults_SystemPackages_cong:
  "SystemPackages z = SystemPackages z' \<Longrightarrow>
     SystemPackages (SetDefaults_SystemPackages z) = SystemPackages (SetDefaults_SystemPackages z')"
  by (simp add: SetDefaults_SystemPackages_def)

lemma SetDefaults_AssetConfiguration_cong:
  "AssetConfiguration z = AssetConfiguration z' \<Longrightarrow>
   RegistryConfiguration z = RegistryConfiguration z' \<Longrightarrow>
     AssetConfiguration (SetDefaults_AssetConfiguration z) =
     AssetConfiguration (SetDefaults_AssetConfiguration z')"
  by (simp add: SetDefaults_AssetConfiguration_def Let_def split: option.splits)

lemma SetDefaults_Features_cong:
  "Features z = Features z' \<Longrightarrow>
     Features (SetDefaults_Features z) = Features (SetDefaults_Features z')"
  by (simp add: SetDefaults_Features_def Let_def split: option.splits)

lemma SetDefaults_Addons_cong:
  "Addons z = Addons z' \<Longrightarrow> Addons (SetDefaults_Addons z) = Addons (SetDefaults_Addons z')"
  by (simp add: SetDefaults_Addons_def split: option.splits)

lemma SetDefaults_Proxy_grows:
  assumes "\<not> (HTTP (Proxy z) = [] \<and> HTTPS (Proxy z) = [])"
  shows "length (NoProxy (Proxy z)) < length (NoProxy (Proxy (SetDefaults_Proxy z)))"
    and "HTTP (Proxy (SetDefaults_Proxy z)) = HTTP (Proxy z)"
    and "HTTPS (Proxy (SetDefaults_Proxy z)) = HTTPS (Proxy z)"
  using assms by (simp_all add: SetDefaults_Proxy_def Let_def DefaultStaticNoProxy_def)

lemma SetDefaults_KubeOneCluster_Proxy:
  "Proxy (SetDefaults_KubeOneCluster obj) =
     Proxy (SetDefaults_Proxy (SetDefaults_ClusterNetwork (SetDefaults_ContainerRuntime
       (SetDefaults_Versions (SetDefaults_APIEndpoints (SetDefaults_Hosts obj))))))"
  by (simp add: SetDefaults_KubeOneCluster_def)

lemma SetDefaults_KubeOneCluster_proxy_grows:
  assumes "\<not> (HTTP (Proxy obj) = [] \<and> HTTPS (Proxy obj) = [])"
  shows "length (NoProxy (Proxy obj)) < length (NoProxy (Proxy (SetDefaults_KubeOneCluster obj)))"
    and "\<not> (HTTP (Proxy (SetDefaults_KubeOneCluster obj)) = []
             \<and> HTTPS (Proxy (SetDefaults_KubeOneCluster obj)) = [])"
proof -
  let ?z = "SetDefaults_ClusterNetwork (SetDefaults_ContainerRuntime
       (SetDefaults_Versions (SetDefaults_APIEndpoints (SetDefaults_Hosts obj))))"
  have z: "Proxy ?z = Proxy obj"
    by simp
  have a: "\<not> (HTTP (Proxy ?z) = [] \<and> HTTPS (Proxy ?z) = [])"
    using assms by simp
  show "length (NoProxy (Proxy obj)) < length (NoProxy (Proxy (SetDefaults_KubeOneCluster obj)))"
    using SetDefaults_Proxy_grows(1) [OF a]
    by (simp add: SetDefaults_KubeOneCluster_Proxy)
  show "\<not> (HTTP (Proxy (SetDefaults_KubeOneCluster obj)) = []
             \<and> HTTPS (Proxy (SetDefaults_KubeOneCluster obj)) = [])"
    using assms
    by (simp add: SetDefaults_KubeOneCluster_Proxy SetDefaults_Proxy_grows(2,3) [OF a])
qed

lemma normalization_with_proxy_not_idempotent:
  assumes "\<not> (HTTP (Proxy obj) = [] \<and> HTTPS (Proxy obj) = [])"
  shows "SetDefaults_KubeOneCluster (SetDefaults_KubeOneCluster obj) \<noteq> SetDefaults_KubeOneCluster obj"
proof
  assume eq: "SetDefaults_KubeOneCluster (SetDefaults_KubeOneCluster obj) = SetDefaults_KubeOneCluster obj"
  have "length (NoProxy (Proxy (SetDefaults_KubeOneCluster obj)))
          < length (NoProxy (Proxy (SetDefaults_KubeOneCluster (SetDefaults_KubeOneCluster obj))))"
    by (rule SetDefaults_KubeOneCluster_proxy_grows(1))
       (rule SetDefaults_KubeOneCluster_proxy_grows(2) [OF assms])
  then show False
    by (simp add: eq)
qed

lemma proxy_no_proxy_values:
  "NoProxy (Proxy (SetDefaults_KubeOneCluster proxyCluster))
     = ''127.0.0.1/8,localhost,cluster.local,10.244.0.0/16,10.96.0.0/12''"
  by (simp add: SetDefaults_KubeOneCluster_Proxy)
     (simp add: SetDefaults_Proxy_def SetDefaults_ClusterNetwork_def Let_def proxyCluster_def
        zeroKubeOneCluster_def DefaultStaticNoProxy_def defaults_def DefaultServiceDNS_def
        DefaultPodSubnet_def DefaultServiceSubnet_def)

text \<open>
  Claim C1, as stated: normalization is idempotent for every valid cluster
  specification, also when an HTTP or HTTPS proxy is configured.

  \<open>SetDefaults_Proxy\<close> builds the new \<open>NoProxy\<close> from the four defaults followed by
  the \<open>NoProxy\<close> it finds, so each pass over a cluster with a proxy makes the value
  longer: a second pass changes the result of the first.
\<close>

theorem normalization_with_http_proxy_grows:
  "SetDefaults_KubeOneCluster (SetDefaults_KubeOneCluster proxyCluster)
     \<noteq> SetDefaults_KubeOneCluster proxyCluster"
  by (rule normalization_with_proxy_not_idempotent) (simp add: proxyCluster_def)

text \<open>
  Claim C1, amended: for every cluster specification in which neither an HTTP nor an
  HTTPS proxy is configured and whose Kubernetes version does not start with \<open>vv\<close>
  (one leading \<open>v\<close> is stripped per pass), normalizing the normalized specification
  changes nothing.
\<close>

theorem normalization_idempotent_without_proxy:
  assumes "HTTP (Proxy obj) = []" and "HTTPS (Proxy obj) = []"
    and "take 2 (VersionConfig.Kubernetes (Versions obj)) \<noteq> ''vv''"
  shows "SetDefaults_KubeOneCluster (SetDefaults_KubeOneCluster obj) = SetDefaults_KubeOneCluster obj"
proof -
  let ?x1 = "SetDefaults_Hosts obj"
  let ?x2 = "SetDefaults_APIEndpoints ?x1"
  let ?x3 = "SetDefaults_Versions ?x2"
  let ?x4 = "SetDefaults_ContainerRuntime ?x3"
  let ?x5 = "SetDefaults_ClusterNetwork ?x4"
  let ?x6 = "SetDefaults_Proxy ?x5"
  let ?x7 = "SetDefaults_MachineController ?x6"
  let ?x8 = "SetDefaults_SystemPackages ?x7"
  let ?x9 = "SetDefaults_AssetConfiguration ?x8"
  let ?x10 = "SetDefaults_Features ?x9"
  let ?x11 = "SetDefaults_Addons ?x10"
  let ?y = "?x11"
  have y: "SetDefaults_KubeOneCluster obj = ?y"
    by (simp only: SetDefaults_KubeOneCluster_def)
  have v: "take 2 (VersionConfig.Kubernetes (Versions ?x2)) \<noteq> ''vv''"
    using assms(3) by simp
  have p: "HTTP (Proxy ?x5) = []" "HTTPS (Proxy ?x5) = []"
    using assms(1,2) by simp_all
  have p6: "?x6 = ?x5"
    using p by (rule SetDefaults_Proxy_unset)
  have i1: "SetDefaults_Hosts ?x1 = ?x1"
    by (rule SetDefaults_Hosts_idem)
  have f1: "SetDefaults_Hosts ?y = ?y"
  proof (rule SetDefaults_fixI(1))
    have "ControlPlane (SetDefaults_Hosts ?y) = ControlPlane (SetDefaults_Hosts ?x1)"
      by (rule SetDefaults_Hosts_cong(1)) simp_all
    also have "\<dots> = ControlPlane ?x1"
      by (simp only: i1)
    also have "\<dots> = ControlPlane ?y"
      by simp
    finally show "ControlPlane (SetDefaults_Hosts ?y) = ControlPlane ?y" .
    have "StaticWorkers (SetDefaults_Hosts ?y) = StaticWorkers (SetDefaults_Hosts ?x1)"
      by (rule SetDefaults_Hosts_cong(2)) simp_all
    also have "\<dots> = StaticWorkers ?x1"
      by (simp only: i1)
    also have "\<dots> = StaticWorkers ?y"
      by simp
    finally show "StaticWorkers (SetDefaults_Hosts ?y) = StaticWorkers ?y" .
  qed
  have i2: "SetDefaults_APIEndpoints ?x2 = ?x2"
    by (rule SetDefaults_APIEndpoints_idem)
  have f2: "SetDefaults_APIEndpoints ?y = ?y"
  proof (rule SetDefaults_fixI(2))
    have "APIEndpoint (SetDefaults_APIEndpoints ?y) = APIEndpoint (SetDefaults_APIEndpoints ?x2)"
      by (rule SetDefaults_APIEndpoints_cong) simp_all
    also have "\<dots> = APIEndpoint ?x2"
      by (simp only: i2)
    also have "\<dots> = APIEndpoint ?y"
      by simp
    finally show "APIEndpoint (SetDefaults_APIEndpoints ?y) = APIEndpoint ?y" .
  qed
  have i3: "SetDefaults_Versions ?x3 = ?x3"
    by (rule SetDefaults_Versions_idem [OF v])
  have f3: "SetDefaults_Versions ?y = ?y"
  proof (rule SetDefaults_fixI(3))
    have "Versions (SetDefaults_Versions ?y) = Versions (SetDefaults_Versions ?x3)"
      by (rule SetDefaults_Versions_cong) simp_all
    also have "\<dots> = Versions ?x3"
      by (simp only: i3)
    also have "\<dots> = Versions ?y"
      by simp
    finally show "Versions (SetDefaults_Versions ?y) = Versions ?y" .
  qed
  have i4: "SetDefaults_ContainerRuntime ?x4 = ?x4"
    by (rule SetDefaults_ContainerRuntime_idem)
  have f4: "SetDefaults_ContainerRuntime ?y = ?y"
  proof (rule SetDefaults_fixI(4))
    have "ContainerRuntime (SetDefaults_ContainerRuntime ?y) = ContainerRuntime (SetDefaults_ContainerRuntime ?x4)"
      by (rule SetDefaults_ContainerRuntime_cong) simp_all
    also have "\<dots> = ContainerRuntime ?x4"
      by (simp only: i4)
    also have "\<dots> = ContainerRuntime ?y"
      by simp
    finally show "ContainerRuntime (SetDefaults_ContainerRuntime ?y) = ContainerRuntime ?y" .
  qed
  have i5: "SetDefaults_ClusterNetwork ?x5 = ?x5"
    by (rule SetDefaults_ClusterNetwork_idem)
  have f5: "SetDefaults_ClusterNetwork ?y = ?y"
  proof (rule SetDefaults_fixI(5))
    have "ClusterNetwork (SetDefaults_ClusterNetwork ?y) = ClusterNetwork (SetDefaults_ClusterNetwork ?x5)"
      by (rule SetDefaults_ClusterNetwork_cong) simp_all
    also have "\<dots> = ClusterNetwork ?x5"
      by (simp only: i5)
    also have "\<dots> = ClusterNetwork ?y"
      by simp
    finally show "ClusterNetwork (SetDefaults_ClusterNetwork ?y) = ClusterNetwork ?y" .
  qed
  have f6: "SetDefaults_Proxy ?y = ?y"
    using p by (intro SetDefaults_Proxy_unset) (simp_all add: p6)
  have i7: "SetDefaults_MachineController ?x7 = ?x7"
    by (rule SetDefaults_MachineController_idem)
  have f7: "SetDefaults_MachineController ?y = ?y"
  proof (rule SetDefaults_fixI(7))
    have "MachineController (SetDefaults_MachineController ?y) = MachineController (SetDefaults_MachineController ?x7)"
      by (rule SetDefaults_MachineController_cong) simp_all
    also have "\<dots> = MachineController ?x7"
      by (simp only: i7)
    also have "\<dots> = MachineController ?y"
      by simp
    finally show "MachineController (SetDefaults_MachineController ?y) = MachineController ?y" .
  qed
  have i8: "SetDefaults_SystemPackages ?x8 = ?x8"
    by (rule SetDefaults_SystemPackages_idem)
  have f8: "SetDefaults_SystemPackages ?y = ?y"
  proof (rule SetDefaults_fixI(8))
    have "SystemPackages (SetDefaults_SystemPackages ?y) = SystemPackages (SetDefaults_SystemPackages ?x8)"
      by (rule SetDefaults_SystemPackages_cong) simp_all
    also have "\<dots> = SystemPackages ?x8"
      by (simp only: i8)
    also have "\<dots> = SystemPackages ?y"
      by simp
    finally show "SystemPackages (SetDefaults_SystemPackages ?y) = SystemPackages ?y" .
  qed
  have i9: "SetDefaults_AssetConfiguration ?x9 = ?x9"
    by (rule SetDefaults_AssetConfiguration_idem)
  have f9: "SetDefaults_AssetConfiguration ?y = ?y"
  proof (rule SetDefaults_fixI(9))
    have "AssetConfiguration (SetDefaults_AssetConfiguration ?y) = AssetConfiguration (SetDefaults_AssetConfiguration ?x9)"
      by (rule SetDefaults_AssetConfiguration_cong) simp_all
    also have "\<dots> = AssetConfiguration ?x9"
      by (simp only: i9)
    also have "\<dots> = AssetConfiguration ?y"
      by simp
    finally show "AssetConfiguration (SetDefaults_AssetConfiguration ?y) = AssetConfiguration ?y" .
  qed
  have i10: "SetDefaults_Features ?x10 = ?x10"
    by (rule SetDefaults_Features_idem)
  have f10: "SetDefaults_Features ?y = ?y"
  proof (rule SetDefaults_fixI(10))
    have "Features (SetDefaults_Features ?y) = Features (SetDefaults_Features ?x10)"
      by (rule SetDefaults_Features_cong) simp_all
    also have "\<dots> = Features ?x10"
      by (simp only: i10)
    also have "\<dots> = Features ?y"
      by simp
    finally show "Features (SetDefaults_Features ?y) = Features ?y" .
  qed
  have i11: "SetDefaults_Addons ?x11 = ?x11"
    by (rule SetDefaults_Addons_idem)
  have f11: "SetDefaults_Addons ?y = ?y"
    by (rule i11)
  have "SetDefaults_KubeOneCluster ?y = ?y"
    by (simp only: SetDefaults_KubeOneCluster_def [of ?y] f1 f2 f3 f4 f5 f6 f7 f8 f9 f10 f11)
  then show ?thesis
    by (simp only: y)
qed

theorem normalization_idempotent_without_proxy_witness:
  "HTTP (Proxy (clusterWithVersion ''v1.23.0'')) = []
   \<and> HTTPS (Proxy (clusterWithVersion ''v1.23.0'')) = []
   \<and> take 2 (VersionConfig.Kubernetes (Versions (clusterWithVersion ''v1.23.0''))) \<noteq> ''vv''
   \<and> SetDefaults_KubeOneCluster (SetDefaults_KubeOneCluster (clusterWithVersion ''v1.23.0''))
       = SetDefaults_KubeOneCluster (clusterWithVersion ''v1.23.0'')"
proof -
  have a: "HTTP (Proxy (clusterWithVersion ''v1.23.0'')) = []"
    and b: "HTTPS (Proxy (clusterWithVersion ''v1.23.0'')) = []"
    and c: "take 2 (VersionConfig.Kubernetes (Versions (clusterWithVersion ''v1.23.0''))) \<noteq> ''vv''"
    by (simp_all add: clusterWithVersion_def zeroKubeOneCluster_def)
  show ?thesis
    using a b c normalization_idempotent_without_proxy [OF a b c]
    by simp
qed

section \<open>Properties of package certificate\<close>

lemma parseCertBlocks_nonempty:
  "parseCertBlocks parse blocks certs ok = Inr r \<Longrightarrow> (ok \<Longrightarrow> certs \<noteq> []) \<Longrightarrow> r \<noteq> []"
proof (induction blocks arbitrary: certs ok)
  case Nil
  then show ?case by (simp split: if_splits)
next
  case (Cons block blocks)
  show ?case
  proof (cases "pem_Block.Type block = CertificateBlockType \<and> length (Headers block) = 0")
    case True
    with Cons.prems(1) obtain cert where "parse (Bytes block) = Inr cert"
      and "parseCertBlocks parse blocks (certs @ [cert]) True = Inr r"
      by (auto split: sum.splits)
    then show ?thesis
      using Cons.IH [of "certs @ [cert]" True] by simp
  next
    case False
    with Cons.prems have "parseCertBlocks parse blocks certs ok = Inr r"
      by auto
    then show ?thesis
      using Cons.IH [of certs ok] Cons.prems(2) by simp
  qed
qed

lemma parseCertBlocks_no_certificate:
  "filter (\<lambda>block. pem_Block.Type block = CertificateBlockType \<and> length (Headers block) = 0)
     blocks = [] \<Longrightarrow>
   parseCertBlocks parse blocks certs False =
     Inl (LibraryError ''data does not contain any valid RSA or ECDSA certificates'')"
  by (induction blocks) (auto split: if_splits)

lemma parseCertBlocks_error:
  "parseCertBlocks parse blocks certs ok = Inl err \<Longrightarrow> \<exists>msg. err = LibraryError msg"
  by (induction blocks arbitrary: certs ok) (auto split: if_splits sum.splits)

lemma ParseCertsPEM_nonempty: "ParseCertsPEM env pemCerts \<noteq> Inr []"
  using parseCertBlocks_nonempty [of "x509_ParseCertificate env" _ "[]" False "[]"]
  by (auto simp add: ParseCertsPEM_def)

lemma ParseCertsPEM_no_certificate:
  "certificateBlocks env pemCerts = [] \<Longrightarrow>
     ParseCertsPEM env pemCerts =
       Inl (LibraryError ''data does not contain any valid RSA or ECDSA certificates'')"
  by (simp add: ParseCertsPEM_def certificateBlocks_def parseCertBlocks_no_certificate)

lemma ParseCertsPEM_error:
  "ParseCertsPEM env pemCerts = Inl err \<Longrightarrow> \<exists>msg. err = LibraryError msg"
  by (auto simp add: ParseCertsPEM_def dest: parseCertBlocks_error)

lemma CAKeyPair_never_empty_certificate_error:
  "CAKeyPair env config \<noteq>
     Inl (ErrorsNew ''ca.crt does not contain at least one valid certificate'')"
  using ParseCertsPEM_nonempty [of env]
  by (auto simp add: CAKeyPair_def dest: ParseCertsPEM_error
        split: option.splits sum.splits PrivateKey.splits)

text \<open>
  Claim C5, as stated: \<open>CAKeyPair\<close> fails with the empty-certificate error when the
  certificate entry decodes to zero certificates.

  \<open>certutil.ParseCertsPEM\<close> reports a file without a certificate as an error of its
  own, which \<open>CAKeyPair\<close> returns as it is: the test \<open>len(certs) == 0\<close> after it is never
  true. An empty \<open>ca.crt\<close> entry gives the parser's error.
\<close>

theorem empty_ca_crt_gives_parser_error:
  "CAKeyPair samplePKIEnv (samplePKI (Some []) (Some ''rsa key''))
     = Inl (LibraryError ''data does not contain any valid RSA or ECDSA certificates'')
   \<and> CAKeyPair samplePKIEnv (samplePKI (Some []) (Some ''rsa key''))
     \<noteq> Inl (ErrorsNew ''ca.crt does not contain at least one valid certificate'')"
  by (simp add: CAKeyPair_def ParseCertsPEM_def samplePKIEnv_def samplePKI_def)

text \<open>
  Claim C5, amended: \<open>CAKeyPair\<close> fails with a not-found error naming the missing entry
  when the CA certificate entry or the CA key entry is absent, with the parser's error
  when the PEM content of an entry is malformed or the certificate entry holds no
  certificate, and with the key-type error when the parsed key is not an RSA key; it
  never returns its own empty-certificate error; on success it returns the RSA key with
  the first parsed certificate. The checks run in this order, so each outcome is stated
  for the inputs that pass the checks before it; the last conjunct says that there is no
  other way to succeed.
\<close>

theorem CAKeyPair_outcomes:
  "(KubernetesPKI config (KubernetesCACertPath env) = None \<longrightarrow>
      CAKeyPair env config = Inl (ErrorfNotFound (KubernetesCACertPath env)))
   \<and> (KubernetesPKI config (KubernetesCACertPath env) \<noteq> None \<longrightarrow>
      KubernetesPKI config (KubernetesCAKeyPath env) = None \<longrightarrow>
      CAKeyPair env config = Inl (ErrorfNotFound (KubernetesCAKeyPath env)))
   \<and> (KubernetesPKI config (KubernetesCACertPath env) = Some caCert \<longrightarrow>
      KubernetesPKI config (KubernetesCAKeyPath env) = Some caKey \<longrightarrow>
        (ParseCertsPEM env caCert = Inl err \<longrightarrow> CAKeyPair env config = Inl err)
      \<and> (certificateBlocks env caCert = [] \<longrightarrow>
           CAKeyPair env config =
             Inl (LibraryError ''data does not contain any valid RSA or ECDSA certificates''))
      \<and> (ParseCertsPEM env caCert = Inr (cert # certs) \<longrightarrow>
           (ParsePrivateKeyPEM env caKey = Inl msg \<longrightarrow>
              CAKeyPair env config = Inl (LibraryError msg))
         \<and> (ParsePrivateKeyPEM env caKey = Inr (OtherPrivateKey other) \<longrightarrow>
              CAKeyPair env config = Inl (ErrorsNew ''private key is not a RSA private key''))
         \<and> (ParsePrivateKeyPEM env caKey = Inr (RSAPrivateKey rsaKey) \<longrightarrow>
              CAKeyPair env config = Inr (rsaKey, cert))))
   \<and> CAKeyPair env config \<noteq>
        Inl (ErrorsNew ''ca.crt does not contain at least one valid certificate'')
   \<and> (CAKeyPair env config = Inr (rsaKey, cert) \<longrightarrow>
        (\<exists>caCert caKey certs.
           KubernetesPKI config (KubernetesCACertPath env) = Some caCert
         \<and> KubernetesPKI config (KubernetesCAKeyPath env) = Some caKey
         \<and> ParseCertsPEM env caCert = Inr (cert # certs)
         \<and> ParsePrivateKeyPEM env caKey = Inr (RSAPrivateKey rsaKey)))"
proof -
  have success: "CAKeyPair env config = Inr (rsaKey, cert) \<Longrightarrow>
        (\<exists>caCert caKey certs.
           KubernetesPKI config (KubernetesCACertPath env) = Some caCert
         \<and> KubernetesPKI config (KubernetesCAKeyPath env) = Some caKey
         \<and> ParseCertsPEM env caCert = Inr (cert # certs)
         \<and> ParsePrivateKeyPEM env caKey = Inr (RSAPrivateKey rsaKey))"
    by (auto simp add: CAKeyPair_def neq_Nil_conv
          split: option.splits sum.splits if_splits PrivateKey.splits)
  have zero: "KubernetesPKI config (KubernetesCACertPath env) = Some caCert \<Longrightarrow>
      KubernetesPKI config (KubernetesCAKeyPath env) = Some caKey \<Longrightarrow>
      certificateBlocks env caCert = [] \<Longrightarrow>
      CAKeyPair env config =
        Inl (LibraryError ''data does not contain any valid RSA or ECDSA certificates'')"
    by (simp add: CAKeyPair_def ParseCertsPEM_no_certificate)
  have rest: "(KubernetesPKI config (KubernetesCACertPath env) = None \<longrightarrow>
      CAKeyPair env config = Inl (ErrorfNotFound (KubernetesCACertPath env)))
   \<and> (KubernetesPKI config (KubernetesCACertPath env) \<noteq> None \<longrightarrow>
      KubernetesPKI config (KubernetesCAKeyPath env) = None \<longrightarrow>
      CAKeyPair env config = Inl (ErrorfNotFound (KubernetesCAKeyPath env)))
   \<and> (KubernetesPKI config (KubernetesCACertPath env) = Some caCert \<longrightarrow>
      KubernetesPKI config (KubernetesCAKeyPath env) = Some caKey \<longrightarrow>
        (ParseCertsPEM env caCert = Inl err \<longrightarrow> CAKeyPair env config = Inl err)
      \<and> (ParseCertsPEM env caCert = Inr (cert # certs) \<longrightarrow>
           (ParsePrivateKeyPEM env caKey = Inl msg \<longrightarrow>
              CAKeyPair env config = Inl (LibraryError msg))
         \<and> (ParsePrivateKeyPEM env caKey = Inr (OtherPrivateKey other) \<longrightarrow>
              CAKeyPair env config = Inl (ErrorsNew ''private key is not a RSA private key''))
         \<and> (ParsePrivateKeyPEM env caKey = Inr (RSAPrivateKey rsaKey) \<longrightarrow>
              CAKeyPair env config = Inr (rsaKey, cert))))"
    by (auto simp add: CAKeyPair_def)
  show ?thesis
    using success zero rest CAKeyPair_never_empty_certificate_error [of env config]
    by blast
qed

theorem CAKeyPair_outcomes_witness:
  "CAKeyPair samplePKIEnv (samplePKI None (Some ''rsa key''))
     = Inl (ErrorfNotFound ''/etc/kubernetes/pki/ca.crt'')
   \<and> CAKeyPair samplePKIEnv (samplePKI (Some ''CERTIFICATE:ca'') None)
     = Inl (ErrorfNotFound ''/etc/kubernetes/pki/ca.key'')
   \<and> CAKeyPair samplePKIEnv (samplePKI (Some ''CERTIFICATE:garbage'') (Some ''rsa key''))
     = Inl (LibraryError ''malformed certificate'')
   \<and> CAKeyPair samplePKIEnv (samplePKI (Some ''RSA PRIVATE KEY:key'') (Some ''rsa key''))
     = Inl (LibraryError ''data does not contain any valid RSA or ECDSA certificates'')
   \<and> CAKeyPair samplePKIEnv (samplePKI (Some ''CERTIFICATE:ca'') (Some ''garbage''))
     = Inl (LibraryError ''malformed key'')
   \<and> CAKeyPair samplePKIEnv (samplePKI (Some ''CERTIFICATE:ca'') (Some ''ecdsa key''))
     = Inl (ErrorsNew ''private key is not a RSA private key'')
   \<and> CAKeyPair samplePKIEnv (samplePKI (Some ''CERTIFICATE:ca'') (Some ''rsa key''))
     = Inr (7, ''ca'')"
proof -
  have blocks: "pem_Blocks samplePKIEnv ''CERTIFICATE:ca''
      = [\<lparr>pem_Block.Type = ''CERTIFICATE'', Headers = [], Bytes = ''ca''\<rparr>]"
    "pem_Blocks samplePKIEnv ''CERTIFICATE:garbage''
      = [\<lparr>pem_Block.Type = ''CERTIFICATE'', Headers = [], Bytes = ''garbage''\<rparr>]"
    "pem_Blocks samplePKIEnv ''RSA PRIVATE KEY:key''
      = [\<lparr>pem_Block.Type = ''RSA PRIVATE KEY'', Headers = [], Bytes = ''key''\<rparr>]"
    by (simp_all add: samplePKIEnv_def)
  have parse: "x509_ParseCertificate samplePKIEnv ''ca'' = Inr ''ca''"
    "x509_ParseCertificate samplePKIEnv ''garbage'' = Inl ''malformed certificate''"
    by (simp_all add: samplePKIEnv_def)
  have certs: "ParseCertsPEM samplePKIEnv ''CERTIFICATE:ca'' = Inr [''ca'']"
    "ParseCertsPEM samplePKIEnv ''CERTIFICATE:garbage'' = Inl (LibraryError ''malformed certificate'')"
    "certificateBlocks samplePKIEnv ''RSA PRIVATE KEY:key'' = []"
    by (simp_all add: ParseCertsPEM_def certificateBlocks_def blocks parse CertificateBlockType_def)
  have keys: "ParsePrivateKeyPEM samplePKIEnv ''garbage'' = Inl ''malformed key''"
    "ParsePrivateKeyPEM samplePKIEnv ''ecdsa key'' = Inr (OtherPrivateKey 5)"
    "ParsePrivateKeyPEM samplePKIEnv ''rsa key'' = Inr (RSAPrivateKey 7)"
    by (simp_all add: samplePKIEnv_def)
  have paths: "KubernetesCACertPath samplePKIEnv = ''/etc/kubernetes/pki/ca.crt''"
    "KubernetesCAKeyPath samplePKIEnv = ''/etc/kubernetes/pki/ca.key''"
    by (simp_all add: samplePKIEnv_def)
  show ?thesis
    using
      CAKeyPair_outcomes [of "samplePKI None (Some ''rsa key'')" samplePKIEnv]
      CAKeyPair_outcomes [of "samplePKI (Some ''CERTIFICATE:ca'') None" samplePKIEnv]
      CAKeyPair_outcomes [of "samplePKI (Some ''CERTIFICATE:garbage'') (Some ''rsa key'')"
        samplePKIEnv "''CERTIFICATE:garbage''" "''rsa key''" "LibraryError ''malformed certificate''"]
      CAKeyPair_outcomes [of "samplePKI (Some ''RSA PRIVATE KEY:key'') (Some ''rsa key'')"
        samplePKIEnv "''RSA PRIVATE KEY:key''" "''rsa key''"]
      CAKeyPair_outcomes [of "samplePKI (Some ''CERTIFICATE:ca'') (Some ''garbage'')"
        samplePKIEnv "''CERTIFICATE:ca''" "''garbage''" _ "''ca''" "[]" "''malformed key''"]
      CAKeyPair_outcomes [of "samplePKI (Some ''CERTIFICATE:ca'') (Some ''ecdsa key'')"
        samplePKIEnv "''CERTIFICATE:ca''" "''ecdsa key''" _ "''ca''" "[]" _ 5]
      CAKeyPair_outcomes [of "samplePKI (Some ''CERTIFICATE:ca'') (Some ''rsa key'')"
        samplePKIEnv "''CERTIFICATE:ca''" "''rsa key''" _ "''ca''" "[]" _ _ 7]
    by (simp add: samplePKI_def paths certs keys)
qed

lemma NewSignedTLSCert_names:
  "strings_Join [name, namespace, ''svc''] ''.'' = name @ ''.'' @ namespace @ ''.svc''"
  "strings_Join [strings_Join [name, namespace, ''svc''] ''.'', domain, []] ''.''
     = name @ ''.'' @ namespace @ ''.svc.'' @ domain @ ''.''"
  by simp_all

lemma NewSignedTLSCert_succeeds:
  "newPrivateKey env = Inr key \<Longrightarrow> signingFailure env = None \<Longrightarrow>
     \<exists>m. NewSignedTLSCert env name namespace domain caKey caCert = Inr m"
  by (simp add: NewSignedTLSCert_def newSignedCert_def Let_def)

text \<open>
  Claim C4, as stated: the subject alternative DNS names of the certificate that
  \<open>NewSignedTLSCert\<close> returns for \<open>metrics-server\<close>, \<open>kube-system\<close>, \<open>cluster.local\<close>
  are exactly \<open>metrics-server.kube-system.svc\<close> and
  \<open>metrics-server.kube-system.svc.cluster.local\<close>.

  The code joins the service name, the domain and an empty string with dots, so the
  fully-qualified name ends with a dot.
\<close>

theorem metrics_server_sans_have_trailing_dot:
  "issuedDNSNames sampleTLSEnv
     (NewSignedTLSCert sampleTLSEnv ''metrics-server'' ''kube-system'' ''cluster.local'' 1 sampleCA)
   \<noteq> Some {''metrics-server.kube-system.svc'', ''metrics-server.kube-system.svc.cluster.local''}"
proof -
  have "issuedDNSNames sampleTLSEnv
     (NewSignedTLSCert sampleTLSEnv ''metrics-server'' ''kube-system'' ''cluster.local'' 1 sampleCA)
     = Some {''metrics-server.kube-system.svc.cluster.local.'', ''metrics-server.kube-system.svc''}"
    by (simp add: issuedDNSNames_def NewSignedTLSCert_def sampleTLSEnv_def newSignedCert_def
          encodeCertPEM_def encodePrivateKeyPEM_def Let_def)
  then show ?thesis
    by (simp add: doubleton_eq_iff)
qed

text \<open>
  Claim C4, amended: for every name, namespace and domain, a certificate returned by
  \<open>NewSignedTLSCert\<close> has the common name \<open><name>.<namespace>.svc\<close>, exactly the two
  subject alternative DNS names \<open><name>.<namespace>.svc.<domain>.\<close> (with a trailing
  dot) and \<open><name>.<namespace>.svc\<close>, server authentication as its only extended key
  usage, and is issued by the given CA certificate and signed with the given CA key. The
  certificate is the entry of the bundle under the TLS certificate name, which differs
  from the other two names.
\<close>

theorem NewSignedTLSCert_certificate:
  assumes "NewSignedTLSCert env name namespace domain caKey caCert = Inr bundle"
    and "TLSCertName env \<noteq> TLSKeyName env"
    and "TLSCertName env \<noteq> KubernetesCACertName env"
  shows "\<exists>cert. bundle (TLSCertName env) = Some (CertificatePEM cert)
     \<and> Subject_CommonName cert = name @ ''.'' @ namespace @ ''.svc''
     \<and> Certificate.DNSNames cert =
         [name @ ''.'' @ namespace @ ''.svc.'' @ domain @ ''.'', name @ ''.'' @ namespace @ ''.svc'']
     \<and> ExtKeyUsage cert = [ExtKeyUsageServerAuth]
     \<and> Issuer_CommonName cert = Subject_CommonName caCert
     \<and> SignedWith cert = caKey"
  using assms
  by (auto simp add: NewSignedTLSCert_def newSignedCert_def encodeCertPEM_def Let_def
        split: sum.splits option.splits)

theorem NewSignedTLSCert_certificate_witness:
  "TLSCertName sampleTLSEnv \<noteq> TLSKeyName sampleTLSEnv
   \<and> TLSCertName sampleTLSEnv \<noteq> KubernetesCACertName sampleTLSEnv
   \<and> (\<exists>bundle cert.
        NewSignedTLSCert sampleTLSEnv ''metrics-server'' ''kube-system'' ''cluster.local'' 1 sampleCA
          = Inr bundle
      \<and> bundle ''cert.pem'' = Some (CertificatePEM cert)
      \<and> Subject_CommonName cert = ''metrics-server.kube-system.svc''
      \<and> Certificate.DNSNames cert =
           [''metrics-server.kube-system.svc.cluster.local.'', ''metrics-server.kube-system.svc'']
      \<and> ExtKeyUsage cert = [ExtKeyUsageServerAuth]
      \<and> Issuer_CommonName cert = ''kubernetes''
      \<and> SignedWith cert = 1)"
proof -
  obtain m where b:
    "NewSignedTLSCert sampleTLSEnv ''metrics-server'' ''kube-system'' ''cluster.local'' 1 sampleCA
       = Inr m"
    by (simp add: NewSignedTLSCert_def sampleTLSEnv_def newSignedCert_def Let_def)
  have n: "TLSCertName sampleTLSEnv \<noteq> TLSKeyName sampleTLSEnv"
    "TLSCertName sampleTLSEnv \<noteq> KubernetesCACertName sampleTLSEnv"
    by (simp_all add: sampleTLSEnv_def)
  show ?thesis
    using n NewSignedTLSCert_certificate [OF b n] b
    by (simp add: sampleTLSEnv_def sampleCA_def)
qed

section \<open>Properties of package machinecontroller\<close>

text \<open>
  Claim C8: every MachineDeployment that \<open>createMachineDeployment\<close> returns has a rolling
  update with maxSurge 0 and maxUnavailable 1 when the worker pool has a network
  configuration, and with maxSurge 1 and maxUnavailable 0 when it has none.
\<close>

theorem rolling_update_strategy:
  assumes "createMachineDeployment js cluster workerset = Inr (Inr md)"
  shows "\<exists>strategy.
           Strategy (MachineDeployment.Spec md) = Some strategy
         \<and> RollingUpdate strategy =
             Some (if Network (DynamicWorkerConfig.Config workerset) \<noteq> None
                   then \<lparr>MaxSurge = Some (FromInt 0), MaxUnavailable = Some (FromInt 1)\<rparr>
                   else \<lparr>MaxSurge = Some (FromInt 1), MaxUnavailable = Some (FromInt 0)\<rparr>)"
  using assms
  by (auto simp add: createMachineDeployment_def Let_def split: sum.splits option.splits)

lemma sample_created:
  "\<exists>md. createMachineDeployment sampleJSON prodCluster (workerPool name (Some r) network)
          = Inr (Inr md)"
  by (simp add: createMachineDeployment_def machineSpec_def sampleJSON_def workerPool_def
        prodCluster_def awsCluster_def zeroKubeOneCluster_def Let_def)

theorem rolling_update_strategy_witness:
  "(\<exists>md strategy.
      createMachineDeployment sampleJSON prodCluster (workerPool ''static'' (Some 3) (Some sampleNetwork))
        = Inr (Inr md)
    \<and> Strategy (MachineDeployment.Spec md) = Some strategy
    \<and> RollingUpdate strategy = Some \<lparr>MaxSurge = Some (FromInt 0), MaxUnavailable = Some (FromInt 1)\<rparr>)
   \<and> (\<exists>md strategy.
      createMachineDeployment sampleJSON prodCluster (workerPool ''dynamic'' (Some 3) None)
        = Inr (Inr md)
    \<and> Strategy (MachineDeployment.Spec md) = Some strategy
    \<and> RollingUpdate strategy = Some \<lparr>MaxSurge = Some (FromInt 1), MaxUnavailable = Some (FromInt 0)\<rparr>)"
proof -
  obtain a where a:
    "createMachineDeployment sampleJSON prodCluster (workerPool ''static'' (Some 3) (Some sampleNetwork))
       = Inr (Inr a)"
    using sample_created by blast
  obtain b where b:
    "createMachineDeployment sampleJSON prodCluster (workerPool ''dynamic'' (Some 3) None)
       = Inr (Inr b)"
    using sample_created by blast
  show ?thesis
    using rolling_update_strategy [OF a] rolling_update_strategy [OF b] a b
    by (simp add: workerPool_def)
qed

lemma setClusterTag_tags:
  assumes "Tags awsSpec = Some tags"
  shows "Tags (setClusterTag cluster awsSpec) = Some (tags(tagName cluster \<mapsto> ''shared''))"
    and "otherFields (setClusterTag cluster awsSpec) = otherFields awsSpec"
  using assms by (simp_all add: setClusterTag_def Let_def)

text \<open>
  Claim C9, as stated: for an AWS worker pool whose payload parses and has a tag map,
  all prior tags of the payload are preserved.

  The code assigns \<open>awsSpec.Tags[tagName] = "shared"\<close>: a payload that came with the
  tag \<open>kubernetes.io/cluster/<name>\<close> and another value, such as \<open>owned\<close>, loses that
  value.
\<close>

theorem prior_cluster_tag_is_overwritten:
  "tagsOf ownedAWSSpec (tagName prodCluster) = Some ''owned''
   \<and> tagsOf (setClusterTag prodCluster ownedAWSSpec) (tagName prodCluster) \<noteq> Some ''owned''"
  by (simp add: tagsOf_def ownedAWSSpec_def setClusterTag_def tagName_def prodCluster_def Let_def)

text \<open>
  Claim C9, amended: for every AWS worker pool whose provider payload parses and carries
  a tag map, the payload that \<open>machineSpec\<close> serializes again is the parsed one in which
  the tag \<open>kubernetes.io/cluster/<clusterName>\<close> has the value \<open>shared\<close>, every tag with
  another key is as before, and the keys are those of before and this one; the key is
  there once, since the tags are a map.
\<close>

theorem aws_cluster_tag:
  assumes "CloudProviderSpec.AWS provider \<noteq> None"
    and "ProviderSpec.CloudProviderSpec (DynamicWorkerConfig.Config workerset) = Some specRaw"
    and "unmarshalAWSSpec js specRaw = Inr awsSpec"
    and "Tags awsSpec = Some tags"
  shows "machineSpec js cluster workerset provider =
           (case marshalAWSSpec js (setClusterTag cluster awsSpec) of
              Inl err \<Rightarrow> Inl (ErrorsWrap err ''could not marshal AWSSpec'')
            | Inr specRaw' \<Rightarrow>
                (case unmarshalSpec js specRaw' of
                   Inl err \<Rightarrow> Inl (ErrorsWrap err ''unable to parse the workerset spec'')
                 | Inr spec \<Rightarrow> Inr spec))
       \<and> otherFields (setClusterTag cluster awsSpec) = otherFields awsSpec
       \<and> (\<exists>tags'. Tags (setClusterTag cluster awsSpec) = Some tags'
            \<and> tags' (''kubernetes.io/cluster/'' @ KubeOneCluster.Name cluster) = Some ''shared''
            \<and> dom tags' = insert (''kubernetes.io/cluster/'' @ KubeOneCluster.Name cluster) (dom tags)
            \<and> (\<forall>k. k \<noteq> ''kubernetes.io/cluster/'' @ KubeOneCluster.Name cluster
                   \<longrightarrow> tags' k = tags k))"
proof -
  have "machineSpec js cluster workerset provider =
           (case marshalAWSSpec js (setClusterTag cluster awsSpec) of
              Inl err \<Rightarrow> Inl (ErrorsWrap err ''could not marshal AWSSpec'')
            | Inr specRaw' \<Rightarrow>
                (case unmarshalSpec js specRaw' of
                   Inl err \<Rightarrow> Inl (ErrorsWrap err ''unable to parse the workerset spec'')
                 | Inr spec \<Rightarrow> Inr spec))"
    using assms(1-3) by (simp add: machineSpec_def split: sum.splits)
  then show ?thesis
    by (simp add: setClusterTag_tags [OF assms(4)] tagName_def)
qed

theorem aws_cluster_tag_witness:
  "machineSpec sampleJSON prodCluster (workerPool ''pool'' (Some 3) None) (CloudProvider prodCluster)
     = Inr ''aws''
   \<and> tagsOf (setClusterTag prodCluster \<lparr>Tags = Some [''team'' \<mapsto> ''infra''], otherFields = ()\<rparr>)
        ''kubernetes.io/cluster/prod'' = Some ''shared''
   \<and> tagsOf (setClusterTag prodCluster \<lparr>Tags = Some [''team'' \<mapsto> ''infra''], otherFields = ()\<rparr>)
        ''team'' = Some ''infra''"
proof -
  let ?spec = "\<lparr>Tags = Some [''team'' \<mapsto> ''infra''], otherFields = ()\<rparr>"
  have a: "CloudProviderSpec.AWS (CloudProvider prodCluster) \<noteq> None"
    by (simp add: prodCluster_def awsCluster_def)
  have b: "ProviderSpec.CloudProviderSpec
             (DynamicWorkerConfig.Config (workerPool ''pool'' (Some 3) None)) = Some ''payload''"
    by (simp add: workerPool_def)
  have c: "unmarshalAWSSpec sampleJSON ''payload'' = Inr ?spec"
    by (simp add: sampleJSON_def)
  have d: "Tags ?spec = Some [''team'' \<mapsto> ''infra'']"
    by simp
  have n: "KubeOneCluster.Name prodCluster = ''prod''"
    by (simp add: prodCluster_def)
  obtain tags' where t: "Tags (setClusterTag prodCluster ?spec) = Some tags'"
    "tags' ''kubernetes.io/cluster/prod'' = Some ''shared''"
    "\<forall>k. k \<noteq> ''kubernetes.io/cluster/prod'' \<longrightarrow> tags' k = [''team'' \<mapsto> ''infra''] k"
    using aws_cluster_tag [OF a b c d, of prodCluster] n by auto
  have "machineSpec sampleJSON prodCluster (workerPool ''pool'' (Some 3) None)
          (CloudProvider prodCluster) = Inr ''aws''"
    using aws_cluster_tag [OF a b c d, of prodCluster] by (simp add: sampleJSON_def)
  moreover have "tags' ''team'' = Some ''infra''"
    using t(3) by simp
  ultimately show ?thesis
    using t(1,2) by (simp add: tagsOf_def)
qed

lemma createMachineDeployment_without_Replicas:
  assumes "DynamicWorkerConfig.Replicas workerset = None"
  shows "createMachineDeployment js cluster workerset = Inl NilPointerDereference
       \<or> (\<exists>err. createMachineDeployment js cluster workerset
              = Inr (Inl (ErrorsWrap err ''failed to generate machineSpec'')))
       \<or> (\<exists>err. createMachineDeployment js cluster workerset
              = Inr (Inl (ErrorsWrap err ''failed to marshal cloudProviderSpec to JSON'')))
       \<or> (\<exists>err. createMachineDeployment js cluster workerset
              = Inr (Inl (ErrorsWrap err ''failed to JSON marshal providerSpec'')))"
  using assms
  by (simp add: createMachineDeployment_def Let_def split: sum.splits)

text \<open>
  Claim C10: a worker pool without a replica count makes the generation of its
  MachineDeployment return a descriptive validation error, before any remote side
  effect.

  \<open>createMachineDeployment\<close> dereferences \<open>workerset.Replicas\<close> without a test: for a
  pool whose payload is fine and whose \<open>Replicas\<close> is \<open>nil\<close> it panics, and in
  \<open>CreateMachineDeployments\<close> the pools before it have been applied by then.
\<close>

theorem unset_replicas_panic:
  "createMachineDeployment sampleJSON prodCluster (workerPool ''b'' None None)
     = Inl NilPointerDereference
   \<and> snd (CreateMachineDeployments sampleJSON sampleCreateOrUpdate
            (sampleState [workerPool ''a'' (Some 1) None, workerPool ''b'' None None]))
     = Inl NilPointerDereference
   \<and> appliedNames (fst (CreateMachineDeployments sampleJSON sampleCreateOrUpdate
            (sampleState [workerPool ''a'' (Some 1) None, workerPool ''b'' None None])))
     = Some [''a'']"
proof -
  let ?pools = "[workerPool ''a'' (Some 1) None, workerPool ''b'' None None]"
  let ?cluster = "prodCluster\<lparr>DynamicWorkers := ?pools\<rparr>"
  have b0: "createMachineDeployment sampleJSON prodCluster (workerPool ''b'' None None)
     = Inl NilPointerDereference"
    by (simp add: createMachineDeployment_def machineSpec_def sampleJSON_def workerPool_def
          prodCluster_def awsCluster_def zeroKubeOneCluster_def Let_def)
  have b: "createMachineDeployment sampleJSON ?cluster (workerPool ''b'' None None)
     = Inl NilPointerDereference"
    by (simp add: createMachineDeployment_def machineSpec_def sampleJSON_def workerPool_def
          prodCluster_def awsCluster_def zeroKubeOneCluster_def Let_def)
  obtain md where a: "createMachineDeployment sampleJSON ?cluster (workerPool ''a'' (Some 1) None)
     = Inr (Inr md)" and n: "ObjectMeta.Name (MachineDeployment.ObjectMeta md) = ''a''"
    by (simp add: createMachineDeployment_def machineSpec_def sampleJSON_def workerPool_def
          prodCluster_def awsCluster_def zeroKubeOneCluster_def Let_def)
  have "CreateMachineDeployments sampleJSON sampleCreateOrUpdate (sampleState ?pools)
          = (\<lparr>DynamicClient = Some [md], Cluster = ?cluster\<rparr>, Inl NilPointerDereference)"
    using a b
    by (simp add: CreateMachineDeployments_def sampleState_def sampleCreateOrUpdate_def)
  then show ?thesis
    using b0 n by (simp add: appliedNames_def)
qed

end
